theory Spec2Isabelle
  imports Main "HOL-Library.Word" "HOL-Library.Signed_Division"
begin

unbundle bit_operations_syntax

section \<open>Machine types\<close>

type_synonym uint8_t = "8 word"
type_synonym uint16_t = "16 word"
type_synonym uint64_t = "64 word"

section \<open>Byte queue (queue.h, queue.c)\<close>

text \<open>
  \<^verbatim>\<open>queue_t\<close> is a ring buffer: \<^verbatim>\<open>uint8_t data[QUEUE_SIZE]\<close> and three C \<^verbatim>\<open>int\<close>
  fields. The mutex is not modelled: every operation holds it from its first to its last
  statement, so an operation is one atomic state transformer.  The array is a list; the
  write \<^verbatim>\<open>q->data[q->tail] = byte\<close> is defined in C only for
  \<open>0 \<le> tail < QUEUE_SIZE\<close>, which is the range in which the list update below is the
  C assignment.  C's \<^verbatim>\<open>%\<close> truncates towards zero, hence \<open>smod\<close>.
\<close>

definition QUEUE_SIZE :: int where
  "QUEUE_SIZE = 1024"

record queue_t =
  q_data :: "uint8_t list"
  q_head :: int
  q_tail :: int
  q_count :: int

definition queue_init :: "queue_t \<Rightarrow> queue_t" where
  "queue_init q = q\<lparr>q_head := 0, q_tail := 0, q_count := 0\<rparr>"

definition queue_enqueue :: "queue_t \<Rightarrow> uint8_t \<Rightarrow> bool \<times> queue_t" where
  "queue_enqueue q byte =
     (if q_count q = QUEUE_SIZE then (False, q)
      else (True, q\<lparr>q_data := (q_data q)[nat (q_tail q) := byte],
                     q_tail := (q_tail q + 1) smod QUEUE_SIZE,
                     q_count := q_count q + 1\<rparr>))"

definition queue_dequeue :: "queue_t \<Rightarrow> uint8_t option \<times> queue_t" where
  "queue_dequeue q =
     (if q_count q = 0 then (None, q)
      else (Some (q_data q ! nat (q_head q)),
            q\<lparr>q_head := (q_head q + 1) smod QUEUE_SIZE,
              q_count := q_count q - 1\<rparr>))"

definition queue_is_empty :: "queue_t \<Rightarrow> bool" where
  "queue_is_empty q = (q_count q = 0)"

definition queue_clear :: "queue_t \<Rightarrow> queue_t" where
  "queue_clear q = q\<lparr>q_head := 0, q_tail := 0, q_count := 0\<rparr>"

text \<open>
  The invariant of the ring (the data model's \<open>0 \<le> count \<le> capacity\<close>, indices reduced
  modulo the capacity, and the tail \<open>count\<close> cells after the head), and the FIFO content
  it stands for: the \<open>count\<close> cells from \<open>head\<close> on, wrapping.
\<close>

definition queue_inv :: "queue_t \<Rightarrow> bool" where
  "queue_inv q \<longleftrightarrow>
     int (length (q_data q)) = QUEUE_SIZE \<and>
     0 \<le> q_head q \<and> q_head q < QUEUE_SIZE \<and>
     0 \<le> q_count q \<and> q_count q \<le> QUEUE_SIZE \<and>
     q_tail q = (q_head q + q_count q) mod QUEUE_SIZE"

definition queue_contents :: "queue_t \<Rightarrow> uint8_t list" where
  "queue_contents q =
     map (\<lambda>i. q_data q ! nat ((q_head q + int i) mod QUEUE_SIZE)) [0..<nat (q_count q)]"

section \<open>Memory devices (memory.h, memory.c, monitored.h, monitored.c)\<close>

text \<open>
  A \<^verbatim>\<open>memory_t\<close> is a pair of function pointers and a context.  The two variants the
  repository builds are plain RAM (\<^verbatim>\<open>memory_create_ram\<close>) and monitored RAM
  (\<^verbatim>\<open>memory_create_monitored_ram\<close>); the datatype below tags the context with the
  variant, and \<open>memory_read\<close>/\<open>memory_write\<close> are the calls through the pointers.
  A context is \<^verbatim>\<open>uint8_t *data; size_t size\<close>: the block is a function from the index
  to the byte, and the size is kept beside it (the constructor of the monitored RAM
  refuses a size of 0, so its \<open>size - 1\<close> does not wrap).  The monitored context also holds a pointer
  to the CPU whose output queue it feeds; \<^verbatim>\<open>main.c\<close> passes the CPU that owns the bus,
  so the write below takes and returns that queue.
\<close>

record ram_memory_t =
  ram_data :: "nat \<Rightarrow> uint8_t"
  ram_size :: nat

record monitored_ram_t =
  mon_data :: "nat \<Rightarrow> uint8_t"
  mon_size :: nat

datatype memory_t = Ram ram_memory_t | Monitored_ram monitored_ram_t

definition ram_read :: "ram_memory_t \<Rightarrow> uint16_t \<Rightarrow> uint8_t" where
  "ram_read ram addr = (if unat addr \<ge> ram_size ram then 0xFF else ram_data ram (unat addr))"

definition ram_write :: "ram_memory_t \<Rightarrow> uint16_t \<Rightarrow> uint8_t \<Rightarrow> ram_memory_t" where
  "ram_write ram addr d =
     (if unat addr \<ge> ram_size ram then ram
      else ram\<lparr>ram_data := (ram_data ram)(unat addr := d)\<rparr>)"

definition memory_create_ram :: "nat \<Rightarrow> memory_t" where
  "memory_create_ram sz = Ram \<lparr>ram_data = (\<lambda>_. 0), ram_size = sz\<rparr>"

definition MONITORED_ADDR_OUTPUT_CHAR :: uint16_t where
  "MONITORED_ADDR_OUTPUT_CHAR = 0x6000"

definition MONITORED_ADDR_TEST_STATUS :: uint16_t where
  "MONITORED_ADDR_TEST_STATUS = 0x6001"

text \<open>
  The repository has two copies of \<^verbatim>\<open>monitored.h\<close>, one beside each copy of
  \<^verbatim>\<open>monitored.c\<close>.  They differ in \<^verbatim>\<open>MONITORED_ADDR_ADDITIONAL_STATUS\<close>: \<^verbatim>\<open>0x6002\<close>
  beside the copy whose messages end in carriage return and line feed, \<^verbatim>\<open>0x0002\<close> beside
  the copy whose messages end in a line feed alone.
\<close>

definition MONITORED_ADDR_ADDITIONAL_STATUS :: uint16_t where
  "MONITORED_ADDR_ADDITIONAL_STATUS = 0x6002"

definition MONITORED_ADDR_ADDITIONAL_STATUS_LF :: uint16_t where
  "MONITORED_ADDR_ADDITIONAL_STATUS_LF = 0x0002"

text \<open>The \<^verbatim>\<open>%02X\<close> and \<^verbatim>\<open>%04X\<close> conversions of \<^verbatim>\<open>snprintf\<close>.\<close>

definition hex_digit :: "nat \<Rightarrow> char" where
  "hex_digit n = ''0123456789ABCDEF'' ! (n mod 16)"

definition hex_02X :: "uint8_t \<Rightarrow> string" where
  "hex_02X b = [hex_digit (unat b div 16), hex_digit (unat b)]"

definition hex_04X :: "uint16_t \<Rightarrow> string" where
  "hex_04X w = [hex_digit (unat w div 4096), hex_digit (unat w div 256),
                hex_digit (unat w div 16), hex_digit (unat w)]"

definition CRLF :: string where
  "CRLF = [CHR 0x0D, CHR 0x0A]"

definition LF :: string where
  "LF = [CHR 0x0A]"

text \<open>
  The loop \<^verbatim>\<open>for (i = 0; message[i] != '\0'; ++i) queue_enqueue(q, (uint8_t)message[i])\<close>:
  one call per character, in order, the result of each call ignored.
\<close>

primrec enqueue_message :: "string \<Rightarrow> queue_t \<Rightarrow> queue_t" where
  "enqueue_message [] q = q"
| "enqueue_message (c # cs) q = enqueue_message cs (snd (queue_enqueue q (of_char c)))"

definition monitored_ram_read :: "monitored_ram_t \<Rightarrow> uint16_t \<Rightarrow> uint8_t" where
  "monitored_ram_read ram addr = mon_data ram (unat addr AND (mon_size ram - 1))"

definition monitored_ram_write ::
  "monitored_ram_t \<Rightarrow> queue_t \<Rightarrow> uint16_t \<Rightarrow> uint8_t \<Rightarrow> monitored_ram_t \<times> queue_t" where
  "monitored_ram_write ram out addr d =
     (let ram' = ram\<lparr>mon_data := (mon_data ram)(unat addr AND (mon_size ram - 1) := d)\<rparr>
      in if addr = MONITORED_ADDR_OUTPUT_CHAR then
           (ram', snd (queue_enqueue out d))
         else if addr = MONITORED_ADDR_TEST_STATUS then
           (let message = (if d = 0x00 then ''6502 FUNCTIONAL TEST PASSED'' @ CRLF
                           else ''6502 FUNCTIONAL TEST FAILED'' @ CRLF)
            in (ram', enqueue_message message out))
         else if addr = MONITORED_ADDR_ADDITIONAL_STATUS then
           (let formatted_message =
                  (if d = 0x00 then
                     ''6502 FUNCTIONAL TEST PASSED (0x'' @ hex_04X addr @ '')'' @ CRLF
                   else
                     ''6502 FUNCTIONAL TEST FAILED (0x'' @ hex_04X addr
                       @ '') with Error Code 0x'' @ hex_02X d @ CRLF)
            in (ram', enqueue_message formatted_message out))
         else (ram', out))"

text \<open>
  The second copy of \<^verbatim>\<open>monitored.c\<close> in the repository: its messages end in a line
  feed without the carriage return, and the additional status, which its header puts at
  \<^verbatim>\<open>0x0002\<close>, has its own wording.
\<close>

definition monitored_ram_write_lf ::
  "monitored_ram_t \<Rightarrow> queue_t \<Rightarrow> uint16_t \<Rightarrow> uint8_t \<Rightarrow> monitored_ram_t \<times> queue_t" where
  "monitored_ram_write_lf ram out addr d =
     (let ram' = ram\<lparr>mon_data := (mon_data ram)(unat addr AND (mon_size ram - 1) := d)\<rparr>
      in if addr = MONITORED_ADDR_OUTPUT_CHAR then
           (ram', snd (queue_enqueue out d))
         else if addr = MONITORED_ADDR_TEST_STATUS then
           (if d = 0x00 then
              (ram', enqueue_message (''6502 FUNCTIONAL TEST PASSED'' @ LF) out)
            else
              (ram', enqueue_message (''6502 FUNCTIONAL TEST FAILED'' @ LF) out))
         else if addr = MONITORED_ADDR_ADDITIONAL_STATUS_LF then
           (if d = 0x00 then
              (ram', enqueue_message (''ADDITIONAL TEST PASSED'' @ LF) out)
            else
              (ram', enqueue_message
                       (''ADDITIONAL TEST FAILED: CODE 0x'' @ hex_02X d @ LF) out))
         else (ram', out))"

definition memory_create_monitored_ram :: "nat \<Rightarrow> memory_t option" where
  "memory_create_monitored_ram sz =
     (if sz = 0 then None
      else if sz AND (sz - 1) \<noteq> 0 then None
      else Some (Monitored_ram \<lparr>mon_data = (\<lambda>_. 0), mon_size = sz\<rparr>))"

fun memory_read :: "memory_t \<Rightarrow> uint16_t \<Rightarrow> uint8_t" where
  "memory_read (Ram ram) addr = ram_read ram addr"
| "memory_read (Monitored_ram ram) addr = monitored_ram_read ram addr"

fun memory_write ::
  "memory_t \<Rightarrow> queue_t \<Rightarrow> uint16_t \<Rightarrow> uint8_t \<Rightarrow> memory_t \<times> queue_t" where
  "memory_write (Ram ram) out addr d = (Ram (ram_write ram addr d), out)"
| "memory_write (Monitored_ram ram) out addr d =
     (let (ram', out') = monitored_ram_write ram out addr d in (Monitored_ram ram', out'))"

section \<open>Address bus (bus.h)\<close>

record bus_device_t =
  device :: memory_t
  start_addr :: uint16_t
  end_addr :: uint16_t

type_synonym bus_t = "bus_device_t list"

definition MAX_DEVICES :: nat where
  "MAX_DEVICES = 16"

text \<open>
  \<^verbatim>\<open>bus.c\<close> is not among the sources; only \<^verbatim>\<open>bus.h\<close> declares \<^verbatim>\<open>bus_create\<close>,
  \<^verbatim>\<open>bus_connect_device\<close>, \<^verbatim>\<open>bus_read\<close> and \<^verbatim>\<open>bus_write\<close>.  The four functions
  follow the specification of the address bus, quoted at each.
\<close>

text \<open>
  Modelled from the spec: \<^verbatim>\<open>bus_create\<close> (\<^verbatim>\<open>bus.c\<close> missing): a bus with no entry.
\<close>

definition bus_create :: bus_t where
  "bus_create = []"

text \<open>
  Modelled from the spec: \<^verbatim>\<open>bus_connect_device\<close> (\<^verbatim>\<open>bus.c\<close> missing).  ``Appends
  routing entry; fails when the table is full'' (up to 16 entries).
\<close>

definition bus_connect_device :: "bus_t \<Rightarrow> memory_t \<Rightarrow> uint16_t \<Rightarrow> uint16_t \<Rightarrow> bus_t" where
  "bus_connect_device b dev start end =
     (if length b \<ge> MAX_DEVICES then b
      else b @ [\<lparr>device = dev, start_addr = start, end_addr = end\<rparr>])"

text \<open>
  Modelled from the spec: \<^verbatim>\<open>bus_read\<close> (\<^verbatim>\<open>bus.c\<close> missing).  ``Scans entries in insertion
  order, returns \<open>device.read(addr)\<close> of the first containing entry; returns \<open>0xFF\<close> if
  none match.''
\<close>

fun bus_read :: "bus_t \<Rightarrow> uint16_t \<Rightarrow> uint8_t" where
  "bus_read [] addr = 0xFF"
| "bus_read (e # es) addr =
     (if start_addr e \<le> addr \<and> addr \<le> end_addr e then memory_read (device e) addr
      else bus_read es addr)"

text \<open>
  Modelled from the spec: \<^verbatim>\<open>bus_write\<close> (\<^verbatim>\<open>bus.c\<close> missing).  ``Symmetric; silently
  drops on no match.''  The write of the device may enqueue on the output queue, which is
  passed through.
\<close>

fun bus_write :: "bus_t \<Rightarrow> queue_t \<Rightarrow> uint16_t \<Rightarrow> uint8_t \<Rightarrow> bus_t \<times> queue_t" where
  "bus_write [] out addr d = ([], out)"
| "bus_write (e # es) out addr d =
     (if start_addr e \<le> addr \<and> addr \<le> end_addr e then
        (let (dev', out') = memory_write (device e) out addr d
         in (e\<lparr>device := dev'\<rparr> # es, out'))
      else (let (es', out') = bus_write es out addr d in (e # es', out')))"

section \<open>CPU state (cpu_6502.h)\<close>

datatype status_flag_t =
  FLAG_CARRY | FLAG_ZERO | FLAG_INTERRUPT | FLAG_DECIMAL
| FLAG_BREAK | FLAG_UNUSED | FLAG_OVERFLOW | FLAG_NEGATIVE

text \<open>The value of each enumerator, which is the position of the flag's bit in \<open>P\<close>.\<close>

fun flag_value :: "status_flag_t \<Rightarrow> nat" where
  "flag_value FLAG_CARRY = 0"
| "flag_value FLAG_ZERO = 1"
| "flag_value FLAG_INTERRUPT = 2"
| "flag_value FLAG_DECIMAL = 3"
| "flag_value FLAG_BREAK = 4"
| "flag_value FLAG_UNUSED = 5"
| "flag_value FLAG_OVERFLOW = 6"
| "flag_value FLAG_NEGATIVE = 7"

datatype cpu_status_t =
  CPU_SUCCESS | CPU_ERROR_INVALID_ARGUMENT | CPU_ERROR_MEMORY_OVERFLOW
| CPU_ERROR_INVALID_OPCODE | CPU_ERROR_FILE_NOT_FOUND | CPU_ERROR_READ_FAILED

text \<open>
  \<^verbatim>\<open>cpu_6502_t\<close>: the register file \<^verbatim>\<open>reg\<close>, the bus, the cycle counter of the clock
  (\<^verbatim>\<open>clock.cycle_count\<close>, a \<^verbatim>\<open>uint64_t\<close>), the two queues, the interrupt latches and
  the pause and debug flags.  The clock's frequency and times (floating point, wall
  clock), the performance metrics and the mutexes are left out: no register, memory byte,
  queue, latch or counter depends on them.
\<close>

record cpu_6502_t =
  reg_A :: uint8_t
  reg_X :: uint8_t
  reg_Y :: uint8_t
  reg_PC :: uint16_t
  reg_SP :: uint8_t
  reg_P :: uint8_t
  bus :: bus_t
  cycle_count :: uint64_t
  input_queue :: queue_t
  output_queue :: queue_t
  IRQ_pending :: bool
  NMI_pending :: bool
  paused :: bool
  debug_mode :: bool

definition INPUT_ADDR :: uint16_t where
  "INPUT_ADDR = 0xD011"

definition OUTPUT_ADDR :: uint16_t where
  "OUTPUT_ADDR = 0xD012"

text \<open>
  Modelled from the spec: \<^verbatim>\<open>get_flag\<close>, \<^verbatim>\<open>set_flag\<close> and
  \<^verbatim>\<open>update_zero_and_negative_flags\<close> are called throughout \<^verbatim>\<open>cpu_6502.c\<close> and by the
  unit tests, but their definitions are not among the sources.  The specification: \<open>P\<close>
  is composed of the bit flags at the positions of \<^verbatim>\<open>status_flag_t\<close>; a flag is read as
  its bit and set or cleared as its bit, the other bits untouched; the zero and negative
  update sets \<open>Z = (result == 0)\<close> and \<open>N = (result & 0x80) != 0\<close>.
\<close>

definition get_flag :: "cpu_6502_t \<Rightarrow> status_flag_t \<Rightarrow> bool" where
  "get_flag cpu flag = bit (reg_P cpu) (flag_value flag)"

text \<open>
  Modelled from the spec: \<^verbatim>\<open>set_flag\<close> (definition missing): the bit of the flag is set or
  cleared, the other bits of \<open>P\<close> are kept.
\<close>

definition set_flag :: "cpu_6502_t \<Rightarrow> status_flag_t \<Rightarrow> bool \<Rightarrow> cpu_6502_t" where
  "set_flag cpu flag v =
     (if v then cpu\<lparr>reg_P := reg_P cpu OR push_bit (flag_value flag) 1\<rparr>
      else cpu\<lparr>reg_P := reg_P cpu AND NOT (push_bit (flag_value flag) 1)\<rparr>)"

text \<open>
  Modelled from the spec: \<^verbatim>\<open>update_zero_and_negative_flags\<close> (definition missing):
  \<open>Z = (result == 0)\<close> and \<open>N = (result & 0x80) != 0\<close>.
\<close>

definition update_zero_and_negative_flags :: "cpu_6502_t \<Rightarrow> uint8_t \<Rightarrow> cpu_6502_t" where
  "update_zero_and_negative_flags cpu v =
     set_flag (set_flag cpu FLAG_ZERO (v = 0)) FLAG_NEGATIVE (v AND 0x80 \<noteq> 0)"

section \<open>CPU memory access (cpu_6502.c)\<close>

text \<open>
  A read of \<^verbatim>\<open>INPUT_ADDR\<close> dequeues from the input queue, so a read returns the byte and
  the state.  A write to \<^verbatim>\<open>OUTPUT_ADDR\<close> enqueues and does not reach the bus.
\<close>

definition cpu_read :: "cpu_6502_t \<Rightarrow> uint16_t \<Rightarrow> uint8_t \<times> cpu_6502_t" where
  "cpu_read cpu addr =
     (if addr = INPUT_ADDR then
        (case queue_dequeue (input_queue cpu) of
           (Some d, q) \<Rightarrow> (d, cpu\<lparr>input_queue := q\<rparr>)
         | (None, q) \<Rightarrow> (0x00, cpu\<lparr>input_queue := q\<rparr>))
      else (bus_read (bus cpu) addr, cpu))"

definition cpu_write :: "cpu_6502_t \<Rightarrow> uint16_t \<Rightarrow> uint8_t \<Rightarrow> cpu_6502_t" where
  "cpu_write cpu addr d =
     (if addr = OUTPUT_ADDR then
        cpu\<lparr>output_queue := snd (queue_enqueue (output_queue cpu) d)\<rparr>
      else (let (b, out) = bus_write (bus cpu) (output_queue cpu) addr d
            in cpu\<lparr>bus := b, output_queue := out\<rparr>))"

definition fetch_byte :: "cpu_6502_t \<Rightarrow> uint8_t \<times> cpu_6502_t" where
  "fetch_byte cpu =
     (let (byte, cpu) = cpu_read cpu (reg_PC cpu)
      in (byte, cpu\<lparr>reg_PC := reg_PC cpu + 1\<rparr>))"

definition fetch_word :: "cpu_6502_t \<Rightarrow> uint16_t \<times> cpu_6502_t" where
  "fetch_word cpu =
     (let (low, cpu) = cpu_read cpu (reg_PC cpu);
          cpu = cpu\<lparr>reg_PC := (reg_PC cpu + 1) AND 0xFFFF\<rparr>;
          (high, cpu) = cpu_read cpu (reg_PC cpu);
          cpu = cpu\<lparr>reg_PC := (reg_PC cpu + 1) AND 0xFFFF\<rparr>
      in (push_bit 8 (ucast high) OR ucast low, cpu))"

definition push_byte :: "cpu_6502_t \<Rightarrow> uint8_t \<Rightarrow> cpu_6502_t" where
  "push_byte cpu v =
     (let cpu = cpu_write cpu (0x0100 + ucast (reg_SP cpu)) v
      in cpu\<lparr>reg_SP := reg_SP cpu - 1\<rparr>)"

definition pull_byte :: "cpu_6502_t \<Rightarrow> uint8_t \<times> cpu_6502_t" where
  "pull_byte cpu =
     (let cpu = cpu\<lparr>reg_SP := reg_SP cpu + 1\<rparr>
      in cpu_read cpu (0x0100 + ucast (reg_SP cpu)))"

definition push_word :: "cpu_6502_t \<Rightarrow> uint16_t \<Rightarrow> cpu_6502_t" where
  "push_word cpu v =
     (let cpu = push_byte cpu (ucast (drop_bit 8 v AND 0xFF))
      in push_byte cpu (ucast (v AND 0xFF)))"

definition pull_word :: "cpu_6502_t \<Rightarrow> uint16_t \<times> cpu_6502_t" where
  "pull_word cpu =
     (let (low, cpu) = pull_byte cpu;
          (high, cpu) = pull_byte cpu
      in (ucast low OR push_bit 8 (ucast high), cpu))"

section \<open>Addressing modes (cpu_6502.c)\<close>

record effective_address_t =
  address :: uint16_t
  page_crossed :: bool

type_synonym addressing_mode_func_t = "cpu_6502_t \<Rightarrow> effective_address_t \<times> cpu_6502_t"

text \<open>
  C computes on \<^verbatim>\<open>int\<close> after promotion and truncates on assignment; each definition
  computes at the width of the variable assigned, which gives the same bits.
\<close>

definition addr_immediate :: addressing_mode_func_t where
  "addr_immediate cpu =
     (\<lparr>address = reg_PC cpu, page_crossed = False\<rparr>, cpu\<lparr>reg_PC := reg_PC cpu + 1\<rparr>)"

definition addr_zero_page :: addressing_mode_func_t where
  "addr_zero_page cpu =
     (let (addr, cpu) = fetch_byte cpu
      in (\<lparr>address = ucast addr, page_crossed = False\<rparr>, cpu))"

definition addr_zero_page_x :: addressing_mode_func_t where
  "addr_zero_page_x cpu =
     (let (b, cpu) = fetch_byte cpu;
          addr = (b + reg_X cpu) AND 0xFF
      in (\<lparr>address = ucast addr, page_crossed = False\<rparr>, cpu))"

definition addr_zero_page_y :: addressing_mode_func_t where
  "addr_zero_page_y cpu =
     (let (b, cpu) = fetch_byte cpu;
          addr = (b + reg_Y cpu) AND 0xFF
      in (\<lparr>address = ucast addr, page_crossed = False\<rparr>, cpu))"

definition addr_absolute :: addressing_mode_func_t where
  "addr_absolute cpu =
     (let (addr, cpu) = fetch_word cpu
      in (\<lparr>address = addr, page_crossed = False\<rparr>, cpu))"

definition addr_absolute_x :: addressing_mode_func_t where
  "addr_absolute_x cpu =
     (let (base_address, cpu) = fetch_word cpu;
          effective_address = base_address + ucast (reg_X cpu);
          crossed = (base_address AND 0xFF00 \<noteq> effective_address AND 0xFF00)
      in (\<lparr>address = effective_address, page_crossed = crossed\<rparr>, cpu))"

definition addr_absolute_y :: addressing_mode_func_t where
  "addr_absolute_y cpu =
     (let (base_address, cpu) = fetch_word cpu;
          effective_address = base_address + ucast (reg_Y cpu);
          crossed = (base_address AND 0xFF00 \<noteq> effective_address AND 0xFF00)
      in (\<lparr>address = effective_address, page_crossed = crossed\<rparr>, cpu))"

definition addr_indirect :: addressing_mode_func_t where
  "addr_indirect cpu =
     (let (ptr, cpu) = fetch_word cpu;
          (low, cpu) = cpu_read cpu ptr;
          (high, cpu) = cpu_read cpu ((ptr AND 0xFF00) OR ((ptr + 1) AND 0x00FF));
          addr = push_bit 8 (ucast high) OR ucast low
      in (\<lparr>address = addr, page_crossed = False\<rparr>, cpu))"

definition addr_indirect_x :: addressing_mode_func_t where
  "addr_indirect_x cpu =
     (let (b, cpu) = fetch_byte cpu;
          base = (b + reg_X cpu) AND 0xFF;
          (low, cpu) = cpu_read cpu (ucast base);
          (high, cpu) = cpu_read cpu (ucast ((base + 1) AND 0xFF));
          addr = push_bit 8 (ucast high) OR ucast low
      in (\<lparr>address = addr, page_crossed = False\<rparr>, cpu))"

definition addr_indirect_y :: addressing_mode_func_t where
  "addr_indirect_y cpu =
     (let (base, cpu) = fetch_byte cpu;
          (low, cpu) = cpu_read cpu (ucast base);
          (high, cpu) = cpu_read cpu (ucast ((base + 1) AND 0xFF));
          base_address = push_bit 8 (ucast high) OR ucast low;
          effective_address = base_address + ucast (reg_Y cpu);
          crossed = (base_address AND 0xFF00 \<noteq> effective_address AND 0xFF00)
      in (\<lparr>address = effective_address, page_crossed = crossed\<rparr>, cpu))"

definition addr_relative :: addressing_mode_func_t where
  "addr_relative cpu =
     (let (offset, cpu) = fetch_byte cpu;
          effective_address = reg_PC cpu + scast offset;
          crossed = (reg_PC cpu AND 0xFF00 \<noteq> effective_address AND 0xFF00)
      in (\<lparr>address = effective_address, page_crossed = crossed\<rparr>, cpu))"

section \<open>Instructions (cpu_6502.c)\<close>

text \<open>
  An instruction is \<^verbatim>\<open>void instr(cpu_6502_t *cpu, addressing_mode_func_t mode)\<close>.  The
  instructions that start with \<^verbatim>\<open>(void)mode\<close> take the state alone here; the others
  take the addressing mode first.  \<open>add_cycle\<close> is the statement
  \<^verbatim>\<open>cpu->clock.cycle_count += 1\<close>, and \<open>branch_taken\<close> the body shared by the taken
  branches.
\<close>

definition add_cycle :: "cpu_6502_t \<Rightarrow> cpu_6502_t" where
  "add_cycle cpu = cpu\<lparr>cycle_count := cycle_count cpu + 1\<rparr>"

definition page_cross_cycle :: "effective_address_t \<Rightarrow> cpu_6502_t \<Rightarrow> cpu_6502_t" where
  "page_cross_cycle ea cpu = (if page_crossed ea then add_cycle cpu else cpu)"

definition instr_adc :: "addressing_mode_func_t \<Rightarrow> cpu_6502_t \<Rightarrow> cpu_6502_t" where
  "instr_adc mode cpu =
     (let (ea, cpu) = mode cpu;
          (v, cpu) = cpu_read cpu (address ea);
          cpu =
            (if get_flag cpu FLAG_DECIMAL then
               (let al = (reg_A cpu AND 0x0F) + (v AND 0x0F) + of_bool (get_flag cpu FLAG_CARRY);
                    ah = drop_bit 4 (reg_A cpu) + drop_bit 4 v;
                    (al, ah) = (if al > 9 then (al - 10, ah + 1) else (al, ah));
                    (ah, cpu) = (if ah > 9 then (ah - 10, set_flag cpu FLAG_CARRY True)
                                 else (ah, set_flag cpu FLAG_CARRY False));
                    cpu = cpu\<lparr>reg_A := push_bit 4 ah OR (al AND 0x0F)\<rparr>
                in update_zero_and_negative_flags cpu (reg_A cpu))
             else
               (let sum = (ucast (reg_A cpu) + ucast v + of_bool (get_flag cpu FLAG_CARRY) :: uint16_t);
                    cpu = set_flag cpu FLAG_CARRY (sum > 0xFF);
                    result = (ucast (sum AND 0xFF) :: uint8_t);
                    cpu = set_flag cpu FLAG_OVERFLOW
                            (NOT (reg_A cpu XOR v) AND (reg_A cpu XOR result) AND 0x80 \<noteq> 0);
                    cpu = cpu\<lparr>reg_A := result\<rparr>
                in update_zero_and_negative_flags cpu (reg_A cpu)))
      in page_cross_cycle ea cpu)"

definition instr_and :: "addressing_mode_func_t \<Rightarrow> cpu_6502_t \<Rightarrow> cpu_6502_t" where
  "instr_and mode cpu =
     (let (ea, cpu) = mode cpu;
          (v, cpu) = cpu_read cpu (address ea);
          cpu = cpu\<lparr>reg_A := reg_A cpu AND v\<rparr>;
          cpu = update_zero_and_negative_flags cpu (reg_A cpu)
      in page_cross_cycle ea cpu)"

definition instr_asl :: "addressing_mode_func_t \<Rightarrow> cpu_6502_t \<Rightarrow> cpu_6502_t" where
  "instr_asl mode cpu =
     (let (ea, cpu) = mode cpu;
          addr = address ea;
          (v, cpu) = cpu_read cpu addr;
          cpu = set_flag cpu FLAG_CARRY (v AND 0x80 \<noteq> 0);
          v = push_bit 1 v;
          cpu = cpu_write cpu addr v;
          cpu = update_zero_and_negative_flags cpu v
      in page_cross_cycle ea cpu)"

definition instr_asl_accumulator :: "cpu_6502_t \<Rightarrow> cpu_6502_t" where
  "instr_asl_accumulator cpu =
     (let cpu = set_flag cpu FLAG_CARRY (reg_A cpu AND 0x80 \<noteq> 0);
          cpu = cpu\<lparr>reg_A := push_bit 1 (reg_A cpu)\<rparr>
      in update_zero_and_negative_flags cpu (reg_A cpu))"

definition branch_taken :: "effective_address_t \<Rightarrow> cpu_6502_t \<Rightarrow> cpu_6502_t" where
  "branch_taken ea cpu =
     (let cpu = cpu\<lparr>reg_PC := address ea\<rparr>;
          cpu = add_cycle cpu
      in page_cross_cycle ea cpu)"

definition instr_bcc :: "addressing_mode_func_t \<Rightarrow> cpu_6502_t \<Rightarrow> cpu_6502_t" where
  "instr_bcc mode cpu =
     (let (ea, cpu) = mode cpu
      in if \<not> get_flag cpu FLAG_CARRY then branch_taken ea cpu else cpu)"

definition instr_bcs :: "addressing_mode_func_t \<Rightarrow> cpu_6502_t \<Rightarrow> cpu_6502_t" where
  "instr_bcs mode cpu =
     (let (ea, cpu) = mode cpu
      in if get_flag cpu FLAG_CARRY then branch_taken ea cpu else cpu)"

definition instr_beq :: "addressing_mode_func_t \<Rightarrow> cpu_6502_t \<Rightarrow> cpu_6502_t" where
  "instr_beq mode cpu =
     (let (ea, cpu) = mode cpu
      in if get_flag cpu FLAG_ZERO then branch_taken ea cpu else cpu)"

definition instr_bit :: "addressing_mode_func_t \<Rightarrow> cpu_6502_t \<Rightarrow> cpu_6502_t" where
  "instr_bit mode cpu =
     (let (ea, cpu) = mode cpu;
          (v, cpu) = cpu_read cpu (address ea);
          result = reg_A cpu AND v;
          cpu = set_flag cpu FLAG_ZERO (result = 0);
          cpu = set_flag cpu FLAG_OVERFLOW (v AND 0x40 \<noteq> 0)
      in set_flag cpu FLAG_NEGATIVE (v AND 0x80 \<noteq> 0))"

definition instr_bmi :: "addressing_mode_func_t \<Rightarrow> cpu_6502_t \<Rightarrow> cpu_6502_t" where
  "instr_bmi mode cpu =
     (let (ea, cpu) = mode cpu
      in if get_flag cpu FLAG_NEGATIVE then branch_taken ea cpu else cpu)"

text \<open>
  \<^verbatim>\<open>instr_bne\<close> adds the cycles before it assigns \<open>PC\<close>; the two orders give the same
  state.
\<close>

definition instr_bne :: "addressing_mode_func_t \<Rightarrow> cpu_6502_t \<Rightarrow> cpu_6502_t" where
  "instr_bne mode cpu =
     (let (ea, cpu) = mode cpu
      in if \<not> get_flag cpu FLAG_ZERO then
           (let cpu = add_cycle cpu;
                cpu = page_cross_cycle ea cpu
            in cpu\<lparr>reg_PC := address ea\<rparr>)
         else cpu)"

definition instr_bpl :: "addressing_mode_func_t \<Rightarrow> cpu_6502_t \<Rightarrow> cpu_6502_t" where
  "instr_bpl mode cpu =
     (let (ea, cpu) = mode cpu
      in if \<not> get_flag cpu FLAG_NEGATIVE then branch_taken ea cpu else cpu)"

definition instr_brk :: "cpu_6502_t \<Rightarrow> cpu_6502_t" where
  "instr_brk cpu =
     (let cpu = cpu\<lparr>reg_PC := reg_PC cpu + 1\<rparr>;
          cpu = push_word cpu (reg_PC cpu);
          cpu = set_flag cpu FLAG_BREAK True;
          cpu = push_byte cpu (reg_P cpu OR 0x10);
          cpu = set_flag cpu FLAG_INTERRUPT True;
          (lo, cpu) = cpu_read cpu 0xFFFE;
          (hi, cpu) = cpu_read cpu 0xFFFF
      in cpu\<lparr>reg_PC := ucast lo OR push_bit 8 (ucast hi)\<rparr>)"

definition instr_bvc :: "addressing_mode_func_t \<Rightarrow> cpu_6502_t \<Rightarrow> cpu_6502_t" where
  "instr_bvc mode cpu =
     (let (ea, cpu) = mode cpu
      in if \<not> get_flag cpu FLAG_OVERFLOW then branch_taken ea cpu else cpu)"

definition instr_bvs :: "addressing_mode_func_t \<Rightarrow> cpu_6502_t \<Rightarrow> cpu_6502_t" where
  "instr_bvs mode cpu =
     (let (ea, cpu) = mode cpu
      in if get_flag cpu FLAG_OVERFLOW then branch_taken ea cpu else cpu)"

definition instr_clc :: "cpu_6502_t \<Rightarrow> cpu_6502_t" where
  "instr_clc cpu = set_flag cpu FLAG_CARRY False"

definition instr_cld :: "cpu_6502_t \<Rightarrow> cpu_6502_t" where
  "instr_cld cpu = set_flag cpu FLAG_DECIMAL False"

definition instr_cli :: "cpu_6502_t \<Rightarrow> cpu_6502_t" where
  "instr_cli cpu = set_flag cpu FLAG_INTERRUPT False"

definition instr_clv :: "cpu_6502_t \<Rightarrow> cpu_6502_t" where
  "instr_clv cpu = set_flag cpu FLAG_OVERFLOW False"

definition instr_cmp :: "addressing_mode_func_t \<Rightarrow> cpu_6502_t \<Rightarrow> cpu_6502_t" where
  "instr_cmp mode cpu =
     (let (ea, cpu) = mode cpu;
          (v, cpu) = cpu_read cpu (address ea);
          result = reg_A cpu - v;
          cpu = set_flag cpu FLAG_CARRY (reg_A cpu \<ge> v);
          cpu = update_zero_and_negative_flags cpu result
      in page_cross_cycle ea cpu)"

definition instr_cpx :: "addressing_mode_func_t \<Rightarrow> cpu_6502_t \<Rightarrow> cpu_6502_t" where
  "instr_cpx mode cpu =
     (let (ea, cpu) = mode cpu;
          (v, cpu) = cpu_read cpu (address ea);
          result = reg_X cpu - v;
          cpu = set_flag cpu FLAG_CARRY (reg_X cpu \<ge> v)
      in update_zero_and_negative_flags cpu result)"

definition instr_cpy :: "addressing_mode_func_t \<Rightarrow> cpu_6502_t \<Rightarrow> cpu_6502_t" where
  "instr_cpy mode cpu =
     (let (ea, cpu) = mode cpu;
          (v, cpu) = cpu_read cpu (address ea);
          result = reg_Y cpu - v;
          cpu = set_flag cpu FLAG_CARRY (reg_Y cpu \<ge> v)
      in update_zero_and_negative_flags cpu result)"

definition instr_dec :: "addressing_mode_func_t \<Rightarrow> cpu_6502_t \<Rightarrow> cpu_6502_t" where
  "instr_dec mode cpu =
     (let (ea, cpu) = mode cpu;
          addr = address ea;
          (v, cpu) = cpu_read cpu addr;
          v = v - 1;
          cpu = cpu_write cpu addr v
      in update_zero_and_negative_flags cpu v)"

definition instr_dex :: "cpu_6502_t \<Rightarrow> cpu_6502_t" where
  "instr_dex cpu =
     (let cpu = cpu\<lparr>reg_X := reg_X cpu - 1\<rparr>
      in update_zero_and_negative_flags cpu (reg_X cpu))"

definition instr_dey :: "cpu_6502_t \<Rightarrow> cpu_6502_t" where
  "instr_dey cpu =
     (let cpu = cpu\<lparr>reg_Y := reg_Y cpu - 1\<rparr>
      in update_zero_and_negative_flags cpu (reg_Y cpu))"

definition instr_eor :: "addressing_mode_func_t \<Rightarrow> cpu_6502_t \<Rightarrow> cpu_6502_t" where
  "instr_eor mode cpu =
     (let (ea, cpu) = mode cpu;
          (v, cpu) = cpu_read cpu (address ea);
          cpu = cpu\<lparr>reg_A := reg_A cpu XOR v\<rparr>;
          cpu = update_zero_and_negative_flags cpu (reg_A cpu)
      in page_cross_cycle ea cpu)"

definition instr_inc :: "addressing_mode_func_t \<Rightarrow> cpu_6502_t \<Rightarrow> cpu_6502_t" where
  "instr_inc mode cpu =
     (let (ea, cpu) = mode cpu;
          addr = address ea;
          (v, cpu) = cpu_read cpu addr;
          v = v + 1;
          cpu = cpu_write cpu addr v
      in update_zero_and_negative_flags cpu v)"

definition instr_inx :: "cpu_6502_t \<Rightarrow> cpu_6502_t" where
  "instr_inx cpu =
     (let cpu = cpu\<lparr>reg_X := reg_X cpu + 1\<rparr>
      in update_zero_and_negative_flags cpu (reg_X cpu))"

definition instr_iny :: "cpu_6502_t \<Rightarrow> cpu_6502_t" where
  "instr_iny cpu =
     (let cpu = cpu\<lparr>reg_Y := reg_Y cpu + 1\<rparr>
      in update_zero_and_negative_flags cpu (reg_Y cpu))"

definition instr_jmp :: "addressing_mode_func_t \<Rightarrow> cpu_6502_t \<Rightarrow> cpu_6502_t" where
  "instr_jmp mode cpu =
     (let (ea, cpu) = mode cpu
      in cpu\<lparr>reg_PC := address ea\<rparr>)"

definition instr_jsr :: "addressing_mode_func_t \<Rightarrow> cpu_6502_t \<Rightarrow> cpu_6502_t" where
  "instr_jsr mode cpu =
     (let (ea, cpu) = mode cpu;
          addr = address ea;
          cpu = push_word cpu (reg_PC cpu - 1)
      in cpu\<lparr>reg_PC := addr\<rparr>)"

definition instr_lda :: "addressing_mode_func_t \<Rightarrow> cpu_6502_t \<Rightarrow> cpu_6502_t" where
  "instr_lda mode cpu =
     (let (ea, cpu) = mode cpu;
          (v, cpu) = cpu_read cpu (address ea);
          cpu = cpu\<lparr>reg_A := v\<rparr>;
          cpu = update_zero_and_negative_flags cpu (reg_A cpu)
      in page_cross_cycle ea cpu)"

definition instr_ldx :: "addressing_mode_func_t \<Rightarrow> cpu_6502_t \<Rightarrow> cpu_6502_t" where
  "instr_ldx mode cpu =
     (let (ea, cpu) = mode cpu;
          (v, cpu) = cpu_read cpu (address ea);
          cpu = cpu\<lparr>reg_X := v\<rparr>;
          cpu = update_zero_and_negative_flags cpu (reg_X cpu)
      in page_cross_cycle ea cpu)"

definition instr_ldy :: "addressing_mode_func_t \<Rightarrow> cpu_6502_t \<Rightarrow> cpu_6502_t" where
  "instr_ldy mode cpu =
     (let (ea, cpu) = mode cpu;
          (v, cpu) = cpu_read cpu (address ea);
          cpu = cpu\<lparr>reg_Y := v\<rparr>;
          cpu = update_zero_and_negative_flags cpu (reg_Y cpu)
      in page_cross_cycle ea cpu)"

definition instr_lsr :: "addressing_mode_func_t \<Rightarrow> cpu_6502_t \<Rightarrow> cpu_6502_t" where
  "instr_lsr mode cpu =
     (let (ea, cpu) = mode cpu;
          addr = address ea;
          (v, cpu) = cpu_read cpu addr;
          cpu = set_flag cpu FLAG_CARRY (v AND 0x01 \<noteq> 0);
          v = drop_bit 1 v;
          cpu = cpu_write cpu addr v
      in update_zero_and_negative_flags cpu v)"

definition instr_lsr_accumulator :: "cpu_6502_t \<Rightarrow> cpu_6502_t" where
  "instr_lsr_accumulator cpu =
     (let cpu = set_flag cpu FLAG_CARRY (reg_A cpu AND 0x01 \<noteq> 0);
          cpu = cpu\<lparr>reg_A := drop_bit 1 (reg_A cpu)\<rparr>
      in update_zero_and_negative_flags cpu (reg_A cpu))"

definition instr_nop :: "cpu_6502_t \<Rightarrow> cpu_6502_t" where
  "instr_nop cpu = cpu"

definition instr_ora :: "addressing_mode_func_t \<Rightarrow> cpu_6502_t \<Rightarrow> cpu_6502_t" where
  "instr_ora mode cpu =
     (let (ea, cpu) = mode cpu;
          (v, cpu) = cpu_read cpu (address ea);
          cpu = cpu\<lparr>reg_A := reg_A cpu OR v\<rparr>;
          cpu = update_zero_and_negative_flags cpu (reg_A cpu)
      in page_cross_cycle ea cpu)"

definition instr_pha :: "cpu_6502_t \<Rightarrow> cpu_6502_t" where
  "instr_pha cpu = push_byte cpu (reg_A cpu)"

definition instr_php :: "cpu_6502_t \<Rightarrow> cpu_6502_t" where
  "instr_php cpu = push_byte cpu (reg_P cpu OR 0x30)"

definition instr_pla :: "cpu_6502_t \<Rightarrow> cpu_6502_t" where
  "instr_pla cpu =
     (let (v, cpu) = pull_byte cpu;
          cpu = cpu\<lparr>reg_A := v\<rparr>
      in update_zero_and_negative_flags cpu (reg_A cpu))"

definition instr_plp :: "cpu_6502_t \<Rightarrow> cpu_6502_t" where
  "instr_plp cpu =
     (let (v, cpu) = pull_byte cpu
      in cpu\<lparr>reg_P := (v AND 0xEF) OR 0x20\<rparr>)"

definition instr_rol :: "addressing_mode_func_t \<Rightarrow> cpu_6502_t \<Rightarrow> cpu_6502_t" where
  "instr_rol mode cpu =
     (let (ea, cpu) = mode cpu;
          addr = address ea;
          (v, cpu) = cpu_read cpu addr;
          carry_in = (of_bool (get_flag cpu FLAG_CARRY) :: uint8_t);
          cpu = set_flag cpu FLAG_CARRY (v AND 0x80 \<noteq> 0);
          v = push_bit 1 v OR carry_in;
          cpu = cpu_write cpu addr v
      in update_zero_and_negative_flags cpu v)"

definition instr_rol_accumulator :: "cpu_6502_t \<Rightarrow> cpu_6502_t" where
  "instr_rol_accumulator cpu =
     (let carry = (if get_flag cpu FLAG_CARRY then 1 else 0 :: uint8_t);
          cpu = set_flag cpu FLAG_CARRY (reg_A cpu AND 0x80 \<noteq> 0);
          cpu = cpu\<lparr>reg_A := push_bit 1 (reg_A cpu) OR carry\<rparr>
      in update_zero_and_negative_flags cpu (reg_A cpu))"

definition instr_ror :: "addressing_mode_func_t \<Rightarrow> cpu_6502_t \<Rightarrow> cpu_6502_t" where
  "instr_ror mode cpu =
     (let (ea, cpu) = mode cpu;
          addr = address ea;
          (v, cpu) = cpu_read cpu addr;
          carry_in = (push_bit 7 (of_bool (get_flag cpu FLAG_CARRY)) :: uint8_t);
          cpu = set_flag cpu FLAG_CARRY (v AND 0x01 \<noteq> 0);
          v = drop_bit 1 v OR carry_in;
          cpu = cpu_write cpu addr v
      in update_zero_and_negative_flags cpu v)"

definition instr_ror_accumulator :: "cpu_6502_t \<Rightarrow> cpu_6502_t" where
  "instr_ror_accumulator cpu =
     (let carry = (if get_flag cpu FLAG_CARRY then 0x80 else 0x00 :: uint8_t);
          cpu = set_flag cpu FLAG_CARRY (reg_A cpu AND 0x01 \<noteq> 0);
          cpu = cpu\<lparr>reg_A := drop_bit 1 (reg_A cpu) OR carry\<rparr>
      in update_zero_and_negative_flags cpu (reg_A cpu))"

definition instr_rti :: "cpu_6502_t \<Rightarrow> cpu_6502_t" where
  "instr_rti cpu =
     (let (p, cpu) = pull_byte cpu;
          cpu = cpu\<lparr>reg_P := p\<rparr>;
          (pc, cpu) = pull_word cpu
      in cpu\<lparr>reg_PC := pc\<rparr>)"

definition instr_rts :: "cpu_6502_t \<Rightarrow> cpu_6502_t" where
  "instr_rts cpu =
     (let (pc, cpu) = pull_word cpu
      in cpu\<lparr>reg_PC := pc + 1\<rparr>)"

text \<open>
  \<^verbatim>\<open>instr_sbc\<close>: the decimal branch of the source is empty but for the comment
  ``Implement Decimal mode subtraction here; for brevity, the BCD mode implementation is
  omitted'', so with \<open>D\<close> set neither \<open>A\<close> nor a flag is written.
\<close>

definition instr_sbc :: "addressing_mode_func_t \<Rightarrow> cpu_6502_t \<Rightarrow> cpu_6502_t" where
  "instr_sbc mode cpu =
     (let (ea, cpu) = mode cpu;
          addr = address ea;
          (v, cpu) = cpu_read cpu addr;
          carry = (if get_flag cpu FLAG_CARRY then 0 else 1 :: uint8_t);
          cpu =
            (if get_flag cpu FLAG_DECIMAL then cpu
             else
               (let diff = (ucast (reg_A cpu) - ucast v - ucast carry :: uint16_t);
                    cpu = set_flag cpu FLAG_CARRY (diff < 0x100);
                    result = (ucast (diff AND 0xFF) :: uint8_t);
                    cpu = set_flag cpu FLAG_OVERFLOW
                            ((reg_A cpu XOR v) AND (reg_A cpu XOR result) AND 0x80 \<noteq> 0);
                    cpu = cpu\<lparr>reg_A := result\<rparr>
                in update_zero_and_negative_flags cpu (reg_A cpu)))
      in page_cross_cycle ea cpu)"

definition instr_sec :: "cpu_6502_t \<Rightarrow> cpu_6502_t" where
  "instr_sec cpu = set_flag cpu FLAG_CARRY True"

definition instr_sed :: "cpu_6502_t \<Rightarrow> cpu_6502_t" where
  "instr_sed cpu = set_flag cpu FLAG_DECIMAL True"

definition instr_sei :: "cpu_6502_t \<Rightarrow> cpu_6502_t" where
  "instr_sei cpu = set_flag cpu FLAG_INTERRUPT True"

definition instr_sta :: "addressing_mode_func_t \<Rightarrow> cpu_6502_t \<Rightarrow> cpu_6502_t" where
  "instr_sta mode cpu =
     (let (ea, cpu) = mode cpu
      in cpu_write cpu (address ea) (reg_A cpu))"

definition instr_stx :: "addressing_mode_func_t \<Rightarrow> cpu_6502_t \<Rightarrow> cpu_6502_t" where
  "instr_stx mode cpu =
     (let (ea, cpu) = mode cpu
      in cpu_write cpu (address ea) (reg_X cpu))"

definition instr_sty :: "addressing_mode_func_t \<Rightarrow> cpu_6502_t \<Rightarrow> cpu_6502_t" where
  "instr_sty mode cpu =
     (let (ea, cpu) = mode cpu
      in cpu_write cpu (address ea) (reg_Y cpu))"

definition instr_tax :: "cpu_6502_t \<Rightarrow> cpu_6502_t" where
  "instr_tax cpu =
     (let cpu = cpu\<lparr>reg_X := reg_A cpu\<rparr>
      in update_zero_and_negative_flags cpu (reg_X cpu))"

definition instr_tay :: "cpu_6502_t \<Rightarrow> cpu_6502_t" where
  "instr_tay cpu =
     (let cpu = cpu\<lparr>reg_Y := reg_A cpu\<rparr>
      in update_zero_and_negative_flags cpu (reg_Y cpu))"

definition instr_tsx :: "cpu_6502_t \<Rightarrow> cpu_6502_t" where
  "instr_tsx cpu =
     (let cpu = cpu\<lparr>reg_X := reg_SP cpu\<rparr>
      in update_zero_and_negative_flags cpu (reg_X cpu))"

definition instr_txa :: "cpu_6502_t \<Rightarrow> cpu_6502_t" where
  "instr_txa cpu =
     (let cpu = cpu\<lparr>reg_A := reg_X cpu\<rparr>
      in update_zero_and_negative_flags cpu (reg_A cpu))"

definition instr_txs :: "cpu_6502_t \<Rightarrow> cpu_6502_t" where
  "instr_txs cpu = cpu\<lparr>reg_SP := reg_X cpu\<rparr>"

definition instr_tya :: "cpu_6502_t \<Rightarrow> cpu_6502_t" where
  "instr_tya cpu =
     (let cpu = cpu\<lparr>reg_A := reg_Y cpu\<rparr>
      in update_zero_and_negative_flags cpu (reg_A cpu))"

section \<open>Opcode table and instruction step (cpu_6502.c)\<close>

text \<open>
  An \<^verbatim>\<open>opcode_entry_t\<close> holds two function pointers, \<^verbatim>\<open>execute\<close> and \<^verbatim>\<open>addr_mode\<close>,
  and the step calls \<^verbatim>\<open>op->execute(cpu, op->addr_mode)\<close>.  The record holds the
  instruction already applied to the addressing mode of the entry (\<open>None\<close> for the null
  pointer of an undefined opcode).  \<^verbatim>\<open>initialize_opcode_table\<close> fills all 256 entries with
  the undefined entry and then assigns the entries below, in this order.
\<close>

record opcode_entry_t =
  opcode :: uint8_t
  mnemonic :: string
  execute :: "(cpu_6502_t \<Rightarrow> cpu_6502_t) option"
  cycles :: nat
  bytes :: nat

definition undefined_entry :: "uint8_t \<Rightarrow> opcode_entry_t" where
  "undefined_entry i =
     \<lparr>opcode = i, mnemonic = ''???'', execute = None, cycles = 0, bytes = 1\<rparr>"

definition opcode_assignments ::
  "(uint8_t \<times> string \<times> (cpu_6502_t \<Rightarrow> cpu_6502_t) \<times> nat \<times> nat) list" where
  "opcode_assignments =
    [(0x69, ''ADC'', instr_adc addr_immediate, 2, 2),
     (0x65, ''ADC'', instr_adc addr_zero_page, 3, 2),
     (0x75, ''ADC'', instr_adc addr_zero_page_x, 4, 2),
     (0x6D, ''ADC'', instr_adc addr_absolute, 4, 3),
     (0x7D, ''ADC'', instr_adc addr_absolute_x, 4, 3),
     (0x79, ''ADC'', instr_adc addr_absolute_y, 4, 3),
     (0x61, ''ADC'', instr_adc addr_indirect_x, 6, 2),
     (0x71, ''ADC'', instr_adc addr_indirect_y, 5, 2),
     (0x29, ''AND'', instr_and addr_immediate, 2, 2),
     (0x25, ''AND'', instr_and addr_zero_page, 3, 2),
     (0x35, ''AND'', instr_and addr_zero_page_x, 4, 2),
     (0x2D, ''AND'', instr_and addr_absolute, 4, 3),
     (0x3D, ''AND'', instr_and addr_absolute_x, 4, 3),
     (0x39, ''AND'', instr_and addr_absolute_y, 4, 3),
     (0x21, ''AND'', instr_and addr_indirect_x, 6, 2),
     (0x31, ''AND'', instr_and addr_indirect_y, 5, 2),
     (0x0A, ''ASL'', instr_asl_accumulator, 2, 1),
     (0x06, ''ASL'', instr_asl addr_zero_page, 5, 2),
     (0x16, ''ASL'', instr_asl addr_zero_page_x, 6, 2),
     (0x0E, ''ASL'', instr_asl addr_absolute, 6, 3),
     (0x1E, ''ASL'', instr_asl addr_absolute_x, 7, 3),
     (0x90, ''BCC'', instr_bcc addr_relative, 2, 2),
     (0xB0, ''BCS'', instr_bcs addr_relative, 2, 2),
     (0xF0, ''BEQ'', instr_beq addr_relative, 2, 2),
     (0x24, ''BIT'', instr_bit addr_zero_page, 3, 2),
     (0x2C, ''BIT'', instr_bit addr_absolute, 4, 3),
     (0x30, ''BMI'', instr_bmi addr_relative, 2, 2),
     (0xD0, ''BNE'', instr_bne addr_relative, 2, 2),
     (0x10, ''BPL'', instr_bpl addr_relative, 2, 2),
     (0x00, ''BRK'', instr_brk, 7, 1),
     (0x50, ''BVC'', instr_bvc addr_relative, 2, 2),
     (0x70, ''BVS'', instr_bvs addr_relative, 2, 2),
     (0x18, ''CLC'', instr_clc, 2, 1),
     (0xD8, ''CLD'', instr_cld, 2, 1),
     (0x58, ''CLI'', instr_cli, 2, 1),
     (0xB8, ''CLV'', instr_clv, 2, 1),
     (0xC9, ''CMP'', instr_cmp addr_immediate, 2, 2),
     (0xC5, ''CMP'', instr_cmp addr_zero_page, 3, 2),
     (0xD5, ''CMP'', instr_cmp addr_zero_page_x, 3, 2),
     (0xCD, ''CMP'', instr_cmp addr_absolute, 4, 3),
     (0xDD, ''CMP'', instr_cmp addr_absolute_x, 4, 3),
     (0xD9, ''CMP'', instr_cmp addr_absolute_y, 4, 3),
     (0xC1, ''CMP'', instr_cmp addr_indirect_x, 6, 2),
     (0xD1, ''CMP'', instr_cmp addr_indirect_y, 5, 2),
     (0xE0, ''CPX'', instr_cpx addr_immediate, 2, 2),
     (0xE4, ''CPX'', instr_cpx addr_zero_page, 3, 2),
     (0xEC, ''CPX'', instr_cpx addr_absolute, 4, 3),
     (0xC0, ''CPY'', instr_cpy addr_immediate, 2, 2),
     (0xC4, ''CPY'', instr_cpy addr_zero_page, 3, 2),
     (0xCC, ''CPY'', instr_cpy addr_absolute, 4, 3),
     (0xC6, ''DEC'', instr_dec addr_zero_page, 5, 2),
     (0xD6, ''DEC'', instr_dec addr_zero_page_x, 5, 2),
     (0xCE, ''DEC'', instr_dec addr_absolute, 6, 3),
     (0xDE, ''DEC'', instr_dec addr_absolute_x, 7, 3),
     (0xCA, ''DEX'', instr_dex, 2, 1),
     (0x88, ''DEY'', instr_dey, 2, 1),
     (0x49, ''EOR'', instr_eor addr_immediate, 2, 2),
     (0x45, ''EOR'', instr_eor addr_zero_page, 3, 2),
     (0x55, ''EOR'', instr_eor addr_zero_page_x, 4, 2),
     (0x4D, ''EOR'', instr_eor addr_absolute, 4, 3),
     (0x5D, ''EOR'', instr_eor addr_absolute_x, 4, 3),
     (0x59, ''EOR'', instr_eor addr_absolute_y, 4, 3),
     (0x41, ''EOR'', instr_eor addr_indirect_x, 6, 2),
     (0x51, ''EOR'', instr_eor addr_indirect_y, 5, 2),
     (0xE6, ''INC'', instr_inc addr_zero_page, 5, 2),
     (0xF6, ''INC'', instr_inc addr_zero_page_x, 5, 2),
     (0xEE, ''INC'', instr_inc addr_absolute, 7, 3),
     (0xFE, ''INC'', instr_inc addr_absolute_x, 7, 3),
     (0xE8, ''INX'', instr_inx, 2, 1),
     (0xC8, ''INY'', instr_iny, 2, 1),
     (0x4C, ''JMP'', instr_jmp addr_absolute, 3, 3),
     (0x6C, ''JMP'', instr_jmp addr_indirect, 5, 3),
     (0x20, ''JSR'', instr_jsr addr_absolute, 6, 3),
     (0xA9, ''LDA'', instr_lda addr_immediate, 2, 2),
     (0xA5, ''LDA'', instr_lda addr_zero_page, 3, 2),
     (0xB5, ''LDA'', instr_lda addr_zero_page_x, 4, 2),
     (0xAD, ''LDA'', instr_lda addr_absolute, 4, 3),
     (0xBD, ''LDA'', instr_lda addr_absolute_x, 4, 3),
     (0xB9, ''LDA'', instr_lda addr_absolute_y, 4, 3),
     (0xA1, ''LDA'', instr_lda addr_indirect_x, 6, 2),
     (0xB1, ''LDA'', instr_lda addr_indirect_y, 5, 2),
     (0xA2, ''LDX'', instr_ldx addr_immediate, 2, 2),
     (0xA6, ''LDX'', instr_ldx addr_zero_page, 3, 2),
     (0xB6, ''LDX'', instr_ldx addr_zero_page_y, 4, 2),
     (0xAE, ''LDX'', instr_ldx addr_absolute, 4, 3),
     (0xBE, ''LDX'', instr_ldx addr_absolute_y, 4, 3),
     (0xA0, ''LDY'', instr_ldy addr_immediate, 2, 2),
     (0xA4, ''LDY'', instr_ldy addr_zero_page, 3, 2),
     (0xB4, ''LDY'', instr_ldy addr_zero_page_x, 4, 2),
     (0xAC, ''LDY'', instr_ldy addr_absolute, 4, 3),
     (0xBC, ''LDY'', instr_ldy addr_absolute_x, 4, 3),
     (0x4A, ''LSR'', instr_lsr_accumulator, 2, 1),
     (0x46, ''LSR'', instr_lsr addr_zero_page, 5, 2),
     (0x56, ''LSR'', instr_lsr addr_zero_page_x, 6, 2),
     (0x4E, ''LSR'', instr_lsr addr_absolute, 7, 3),
     (0x5E, ''LSR'', instr_lsr addr_absolute_x, 7, 3),
     (0xEA, ''NOP'', instr_nop, 2, 1),
     (0x09, ''ORA'', instr_ora addr_immediate, 2, 2),
     (0x05, ''ORA'', instr_ora addr_zero_page, 3, 2),
     (0x15, ''ORA'', instr_ora addr_zero_page_x, 4, 2),
     (0x0D, ''ORA'', instr_ora addr_absolute, 4, 3),
     (0x1D, ''ORA'', instr_ora addr_absolute_x, 4, 3),
     (0x19, ''ORA'', instr_ora addr_absolute_y, 4, 3),
     (0x01, ''ORA'', instr_ora addr_indirect_x, 6, 2),
     (0x11, ''ORA'', instr_ora addr_indirect_y, 5, 2),
     (0x48, ''PHA'', instr_pha, 3, 1),
     (0x08, ''PHP'', instr_php, 3, 1),
     (0x68, ''PLA'', instr_pla, 4, 1),
     (0x28, ''PLP'', instr_plp, 4, 1),
     (0x2A, ''ROL'', instr_rol_accumulator, 2, 1),
     (0x26, ''ROL'', instr_rol addr_zero_page, 5, 2),
     (0x36, ''ROL'', instr_rol addr_zero_page_x, 6, 2),
     (0x2E, ''ROL'', instr_rol addr_absolute, 7, 3),
     (0x3E, ''ROL'', instr_rol addr_absolute_x, 7, 3),
     (0x6A, ''ROR'', instr_ror_accumulator, 2, 1),
     (0x66, ''ROR'', instr_ror addr_zero_page, 5, 2),
     (0x76, ''ROR'', instr_ror addr_zero_page_x, 6, 2),
     (0x6E, ''ROR'', instr_ror addr_absolute, 7, 3),
     (0x7E, ''ROR'', instr_ror addr_absolute_x, 7, 3),
     (0x40, ''RTI'', instr_rti, 6, 1),
     (0x60, ''RTS'', instr_rts, 6, 1),
     (0xE9, ''SBC'', instr_sbc addr_immediate, 2, 2),
     (0xEB, ''SBC'', instr_sbc addr_immediate, 2, 2),
     (0xE5, ''SBC'', instr_sbc addr_zero_page, 3, 2),
     (0xF5, ''SBC'', instr_sbc addr_zero_page_x, 3, 2),
     (0xED, ''SBC'', instr_sbc addr_absolute, 4, 3),
     (0xFD, ''SBC'', instr_sbc addr_absolute_x, 4, 3),
     (0xF9, ''SBC'', instr_sbc addr_absolute_y, 4, 3),
     (0xE1, ''SBC'', instr_sbc addr_indirect_x, 6, 2),
     (0xF1, ''SBC'', instr_sbc addr_indirect_y, 5, 2),
     (0x38, ''SEC'', instr_sec, 2, 1),
     (0xF8, ''SED'', instr_sed, 2, 1),
     (0x78, ''SEI'', instr_sei, 2, 1),
     (0x85, ''STA'', instr_sta addr_zero_page, 3, 2),
     (0x95, ''STA'', instr_sta addr_zero_page_x, 4, 2),
     (0x8D, ''STA'', instr_sta addr_absolute, 4, 3),
     (0x9D, ''STA'', instr_sta addr_absolute_x, 5, 3),
     (0x99, ''STA'', instr_sta addr_absolute_y, 5, 3),
     (0x81, ''STA'', instr_sta addr_indirect_x, 6, 2),
     (0x91, ''STA'', instr_sta addr_indirect_y, 6, 2),
     (0x86, ''STX'', instr_stx addr_zero_page, 3, 2),
     (0x96, ''STX'', instr_stx addr_zero_page_y, 4, 2),
     (0x8E, ''STX'', instr_stx addr_absolute, 4, 3),
     (0x84, ''STY'', instr_sty addr_zero_page, 3, 2),
     (0x94, ''STY'', instr_sty addr_zero_page_x, 4, 2),
     (0x8C, ''STY'', instr_sty addr_absolute, 4, 3),
     (0xAA, ''TAX'', instr_tax, 2, 1),
     (0xA8, ''TAY'', instr_tay, 2, 1),
     (0xBA, ''TSX'', instr_tsx, 2, 1),
     (0x8A, ''TXA'', instr_txa, 2, 1),
     (0x9A, ''TXS'', instr_txs, 2, 1),
     (0x98, ''TYA'', instr_tya, 2, 1)]"

definition assign_entry ::
  "(uint8_t \<Rightarrow> opcode_entry_t) \<Rightarrow> uint8_t \<times> string \<times> (cpu_6502_t \<Rightarrow> cpu_6502_t) \<times> nat \<times> nat
     \<Rightarrow> (uint8_t \<Rightarrow> opcode_entry_t)" where
  "assign_entry tbl a =
     (case a of (i, mn, f, cy, by) \<Rightarrow>
        tbl(i := \<lparr>opcode = i, mnemonic = mn, execute = Some f, cycles = cy, bytes = by\<rparr>))"

definition opcode_table :: "uint8_t \<Rightarrow> opcode_entry_t" where
  "opcode_table = foldl assign_entry undefined_entry opcode_assignments"

text \<open>
  \<^verbatim>\<open>clock_wait_next_cycle\<close> sleeps until the wall clock reaches the time of the next
  cycle and then counts one cycle; the sleep has no effect on the state kept here.
\<close>

definition clock_wait_next_cycle :: "cpu_6502_t \<Rightarrow> cpu_6502_t" where
  "clock_wait_next_cycle cpu = cpu\<lparr>cycle_count := cycle_count cpu + 1\<rparr>"

text \<open>
  The interrupt block at the head of \<^verbatim>\<open>cpu_execute_instruction\<close>: the latches are
  sampled and cleared, and if either is handled the return state is pushed and the vector
  loaded.
\<close>

definition handle_interrupts :: "cpu_6502_t \<Rightarrow> cpu_6502_t" where
  "handle_interrupts cpu =
     (let handle_nmi = NMI_pending cpu;
          handle_irq = (IRQ_pending cpu \<and> \<not> get_flag cpu FLAG_INTERRUPT);
          cpu = (if handle_nmi then cpu\<lparr>NMI_pending := False\<rparr> else cpu);
          cpu = (if handle_irq then cpu\<lparr>IRQ_pending := False\<rparr> else cpu)
      in if handle_nmi \<or> handle_irq then
           (let cpu = push_word cpu (reg_PC cpu);
                cpu = push_byte cpu (reg_P cpu);
                cpu = set_flag cpu FLAG_INTERRUPT (if handle_irq then True else False);
                cpu =
                  (if handle_nmi then
                     (let (lo, cpu) = cpu_read cpu 0xFFFA;
                          (hi, cpu) = cpu_read cpu 0xFFFB
                      in cpu\<lparr>reg_PC := ucast lo OR push_bit 8 (ucast hi)\<rparr>)
                   else if handle_irq then
                     (let (lo, cpu) = cpu_read cpu 0xFFFE;
                          (hi, cpu) = cpu_read cpu 0xFFFF
                      in cpu\<lparr>reg_PC := ucast lo OR push_bit 8 (ucast hi)\<rparr>)
                   else cpu)
            in cpu\<lparr>cycle_count := cycle_count cpu + 7\<rparr>)
         else cpu)"

text \<open>
  The rest of the step: wait for the cycle, fetch the opcode, look it up and run it.  The
  debug trace and the breakpoint check only print.
\<close>

definition fetch_and_execute :: "cpu_6502_t \<Rightarrow> cpu_status_t \<times> cpu_6502_t" where
  "fetch_and_execute cpu =
     (let cpu = clock_wait_next_cycle cpu;
          (opc, cpu) = fetch_byte cpu;
          op = opcode_table opc
      in case execute op of
           Some f \<Rightarrow> (CPU_SUCCESS, f cpu)
         | None \<Rightarrow> (CPU_ERROR_INVALID_OPCODE, cpu))"

text \<open>
  \<^verbatim>\<open>cpu_execute_instruction\<close> first waits on the condition variable while the CPU is
  paused; only another thread can end that wait, so for the step taken alone a paused CPU
  does not return (\<open>None\<close>).
\<close>

definition cpu_execute_instruction :: "cpu_6502_t \<Rightarrow> (cpu_status_t \<times> cpu_6502_t) option" where
  "cpu_execute_instruction cpu =
     (if paused cpu then None
      else Some (fetch_and_execute (handle_interrupts cpu)))"

section \<open>Initialisation, reset and interrupt injection (cpu_6502.c)\<close>

text \<open>
  \<^verbatim>\<open>cpu_init\<close> on its successful path (every allocation and mutex initialisation
  succeeds).  \<^verbatim>\<open>queue_init\<close> leaves the array of the queue as it finds it.
\<close>

definition cpu_init :: "cpu_6502_t \<Rightarrow> cpu_6502_t" where
  "cpu_init cpu =
     cpu\<lparr>reg_A := 0x00, reg_X := 0x00, reg_Y := 0x00, reg_PC := 0x0000,
         reg_SP := 0xFD, reg_P := 0x34,
         cycle_count := 0,
         bus := bus_create,
         input_queue := queue_init (input_queue cpu),
         output_queue := queue_init (output_queue cpu),
         IRQ_pending := False, NMI_pending := False,
         paused := False, debug_mode := False\<rparr>"

definition cpu_reset :: "cpu_6502_t \<Rightarrow> cpu_6502_t" where
  "cpu_reset cpu =
     (let cpu = cpu\<lparr>reg_A := 0x00, reg_X := 0x00, reg_Y := 0x00, reg_SP := 0xFD, reg_P := 0x34\<rparr>;
          (low, cpu) = cpu_read cpu 0xFFFC;
          (high, cpu) = cpu_read cpu 0xFFFD;
          cpu = cpu\<lparr>reg_PC := push_bit 8 (ucast high) OR ucast low\<rparr>;
          cpu = cpu\<lparr>cycle_count := 0\<rparr>;
          cpu = cpu\<lparr>IRQ_pending := False, NMI_pending := False\<rparr>
      in cpu\<lparr>paused := False\<rparr>)"

definition cpu_inject_IRQ :: "cpu_6502_t \<Rightarrow> cpu_6502_t" where
  "cpu_inject_IRQ cpu = cpu\<lparr>IRQ_pending := True\<rparr>"

definition cpu_inject_NMI :: "cpu_6502_t \<Rightarrow> cpu_6502_t" where
  "cpu_inject_NMI cpu = cpu\<lparr>NMI_pending := True\<rparr>"

section \<open>Test fixtures (tests/unit_tests.c, main.c)\<close>

text \<open>
  \<^verbatim>\<open>setup_test_cpu\<close> of the unit tests: a fresh CPU, initialised, with one plain RAM of
  64 KiB connected over the whole address space.  \<open>setup_main_cpu\<close> is the configuration
  of \<^verbatim>\<open>main\<close>: the same with the monitored RAM.  The fresh structure is taken as zeroed.
\<close>

definition fresh_queue :: queue_t where
  "fresh_queue = \<lparr>q_data = replicate 1024 0, q_head = 0, q_tail = 0, q_count = 0\<rparr>"

definition fresh_cpu :: cpu_6502_t where
  "fresh_cpu =
     \<lparr>reg_A = 0, reg_X = 0, reg_Y = 0, reg_PC = 0, reg_SP = 0, reg_P = 0,
      bus = [], cycle_count = 0,
      input_queue = fresh_queue, output_queue = fresh_queue,
      IRQ_pending = False, NMI_pending = False, paused = False, debug_mode = False\<rparr>"

definition setup_test_cpu :: cpu_6502_t where
  "setup_test_cpu =
     (let cpu = cpu_init fresh_cpu
      in cpu\<lparr>bus := bus_connect_device (bus cpu) (memory_create_ram 0x10000) 0x0000 0xFFFF\<rparr>)"

definition setup_main_cpu :: cpu_6502_t where
  "setup_main_cpu =
     (let cpu = cpu_init fresh_cpu
      in case memory_create_monitored_ram 0x10000 of
           Some ram \<Rightarrow> cpu\<lparr>bus := bus_connect_device (bus cpu) ram 0x0000 0xFFFF\<rparr>
         | None \<Rightarrow> cpu)"

text \<open>Storing a sequence of bytes from an address on, as the tests do with \<^verbatim>\<open>cpu_write\<close>.\<close>

primrec write_bytes :: "cpu_6502_t \<Rightarrow> uint16_t \<Rightarrow> uint8_t list \<Rightarrow> cpu_6502_t" where
  "write_bytes cpu addr [] = cpu"
| "write_bytes cpu addr (b # bs) = write_bytes (cpu_write cpu addr b) (addr + 1) bs"

section \<open>Notions used in the statements\<close>

text \<open>
  \<open>peek\<close> is the byte the bus returns for an address, without the input port's side
  effect.  \<open>flat_memory\<close> is the memory map both \<^verbatim>\<open>main\<close> and the tests build: one device
  of 64 KiB, plain or monitored, over \<open>0x0000..0xFFFF\<close>.  \<open>stack_addr\<close> is the expression
  \<^verbatim>\<open>0x0100 + cpu->reg.SP\<close> of \<^verbatim>\<open>push_byte\<close> and \<^verbatim>\<open>pull_byte\<close>.  \<open>latches\<close> is the pair
  of interrupt latches.
\<close>

definition peek :: "cpu_6502_t \<Rightarrow> uint16_t \<Rightarrow> uint8_t" where
  "peek cpu addr = bus_read (bus cpu) addr"

definition flat_memory :: "cpu_6502_t \<Rightarrow> bool" where
  "flat_memory cpu =
     (case bus cpu of
        [e] \<Rightarrow> start_addr e = 0x0000 \<and> end_addr e = 0xFFFF \<and>
               (case device e of
                  Ram r \<Rightarrow> ram_size r = 0x10000
                | Monitored_ram r \<Rightarrow> mon_size r = 0x10000)
      | _ \<Rightarrow> False)"

definition stack_addr :: "uint8_t \<Rightarrow> uint16_t" where
  "stack_addr sp = 0x0100 + ucast sp"

definition latches :: "cpu_6502_t \<Rightarrow> bool \<times> bool" where
  "latches cpu = (IRQ_pending cpu, NMI_pending cpu)"

definition keeps_latches :: "(cpu_6502_t \<Rightarrow> cpu_6502_t) \<Rightarrow> bool" where
  "keeps_latches f \<longleftrightarrow> (\<forall>s. latches (f s) = latches s)"

definition mode_keeps_latches :: "addressing_mode_func_t \<Rightarrow> bool" where
  "mode_keeps_latches m \<longleftrightarrow> (\<forall>s. latches (snd (m s)) = latches s)"

text \<open>The state a step leaves, for the examples (the step of a paused CPU has none).\<close>

definition after_step :: "cpu_6502_t \<Rightarrow> cpu_6502_t" where
  "after_step cpu = snd (the (cpu_execute_instruction cpu))"

definition step_status :: "cpu_6502_t \<Rightarrow> cpu_status_t" where
  "step_status cpu = fst (the (cpu_execute_instruction cpu))"

text \<open>Concrete machines for the examples, set up as the unit tests set theirs up.\<close>

definition reset_demo :: cpu_6502_t where
  "reset_demo =
     (write_bytes setup_test_cpu 0xFFFC [0x00, 0x80])\<lparr>reg_A := 0xFF, reg_P := 0xFF\<rparr>"

definition lda_demo :: cpu_6502_t where
  "lda_demo =
     (write_bytes (write_bytes setup_test_cpu 0x8000 [0xBD, 0xFF, 0x10]) 0x1100 [0x42])
       \<lparr>reg_X := 0x01, reg_PC := 0x8000\<rparr>"

definition sbc_demo :: cpu_6502_t where
  "sbc_demo =
     (write_bytes setup_test_cpu 0x8000 [0xE9, 0x01])
       \<lparr>reg_A := 0x10, reg_P := 0x3D, reg_PC := 0x8000\<rparr>"

definition brk_demo :: cpu_6502_t where
  "brk_demo =
     (write_bytes (write_bytes setup_test_cpu 0x8000 [0x00, 0x00]) 0xFFFE [0x34, 0x12])
       \<lparr>reg_P := 0x00, reg_PC := 0x8000\<rparr>"

definition rti_demo :: cpu_6502_t where
  "rti_demo = (write_bytes setup_test_cpu 0x8000 [0x40])\<lparr>reg_PC := 0x8000\<rparr>"

definition nmi_demo :: cpu_6502_t where
  "nmi_demo =
     cpu_inject_NMI
       ((write_bytes (write_bytes (write_bytes setup_test_cpu 0xC000 [0xEA, 0xEA])
            0x9000 [0xEA]) 0xFFFA [0x00, 0x90])
          \<lparr>reg_PC := 0xC000\<rparr>)"

definition irq_demo :: cpu_6502_t where
  "irq_demo =
     cpu_inject_IRQ
       ((write_bytes (write_bytes (write_bytes (write_bytes (write_bytes setup_test_cpu
            0xC000 [0x58, 0xEA]) 0x9000 [0x58, 0xEA]) 0xA000 [0xEA])
            0xFFFA [0x00, 0x90]) 0xFFFE [0x00, 0xA0])
          \<lparr>reg_PC := 0xC000\<rparr>)"

definition irq_demo_nmi :: cpu_6502_t where
  "irq_demo_nmi = cpu_inject_NMI (after_step irq_demo)"

definition irq_demo_handler :: cpu_6502_t where
  "irq_demo_handler = after_step irq_demo_nmi"

text \<open>
  The interrupt entry sequence of \<^verbatim>\<open>cpu_execute_instruction\<close>, run when a latch is
  handled: the pushes, the assignment of \<open>I\<close>, the vector and the seven cycles.
\<close>

definition interrupt_entry :: "bool \<Rightarrow> bool \<Rightarrow> cpu_6502_t \<Rightarrow> cpu_6502_t" where
  "interrupt_entry handle_nmi handle_irq cpu =
     (let cpu = push_word cpu (reg_PC cpu);
          cpu = push_byte cpu (reg_P cpu);
          cpu = set_flag cpu FLAG_INTERRUPT handle_irq;
          vec = (if handle_nmi then 0xFFFA else 0xFFFE)
      in cpu\<lparr>reg_PC := ucast (peek cpu vec) OR push_bit 8 (ucast (peek cpu (vec + 1))),
             cycle_count := cycle_count cpu + 7\<rparr>)"

section \<open>Properties of the byte queue\<close>

lemma smod_nonneg: "0 \<le> a \<Longrightarrow> 0 < b \<Longrightarrow> (a::int) smod b = a mod b"
  by (simp add: signed_modulo_int_def sgn_if)

lemma queue_inv_tail: "queue_inv q \<Longrightarrow> 0 \<le> q_tail q \<and> q_tail q < QUEUE_SIZE"
  by (simp add: queue_inv_def QUEUE_SIZE_def)

lemma ring_index_distinct:
  assumes "0 \<le> h" "0 \<le> c" "c < 1024" "i < nat c"
  shows "(h + int i) mod 1024 \<noteq> (h + c) mod (1024::int)"
proof
  assume eq: "(h + int i) mod 1024 = (h + c) mod 1024"
  have "((h + c) - (h + int i)) mod 1024 = 0"
    using eq by (simp add: mod_eq_dvd_iff dvd_diff_commute mod_eq_0_iff_dvd)
  then have "(c - int i) mod 1024 = 0" by simp
  moreover have "0 < c - int i" "c - int i < 1024" using assms by auto
  ultimately show False by simp
qed

lemma queue_enqueue_full: "q_count q = QUEUE_SIZE \<Longrightarrow> queue_enqueue q b = (False, q)"
  by (simp add: queue_enqueue_def)

lemma queue_enqueue_contents:
  assumes inv: "queue_inv q" and room: "q_count q < QUEUE_SIZE"
  shows "queue_contents (snd (queue_enqueue q b)) = queue_contents q @ [b]"
proof -
  let ?h = "q_head q" and ?c = "q_count q" and ?d = "q_data q"
  have h: "0 \<le> ?h" "?h < 1024" and c: "0 \<le> ?c" "?c < 1024"
    and len: "length ?d = 1024" and t: "q_tail q = (?h + ?c) mod 1024"
    using inv room by (auto simp: queue_inv_def QUEUE_SIZE_def)
  have tl: "nat (q_tail q) < length ?d" using t len by simp
  have nat_c: "nat (?c + 1) = Suc (nat ?c)" using c by simp
  have old: "map (\<lambda>i. ?d[nat (q_tail q) := b] ! nat ((?h + int i) mod 1024)) [0..<nat ?c]
           = map (\<lambda>i. ?d ! nat ((?h + int i) mod 1024)) [0..<nat ?c]"
  proof (rule map_cong [OF refl])
    fix i assume "i \<in> set [0..<nat ?c]"
    then have "i < nat ?c" by simp
    from ring_index_distinct [OF h(1) c this]
    have "nat ((?h + int i) mod 1024) \<noteq> nat (q_tail q)"
      using t by (simp add: nat_eq_iff)
    then show "?d[nat (q_tail q) := b] ! nat ((?h + int i) mod 1024)
             = ?d ! nat ((?h + int i) mod 1024)"
      by simp
  qed
  have new: "?d[nat (q_tail q) := b] ! nat ((?h + int (nat ?c)) mod 1024) = b"
    using tl t c by simp
  show ?thesis
    using room old new
    by (simp add: queue_enqueue_def queue_contents_def QUEUE_SIZE_def nat_c)
qed

lemma queue_enqueue_inv:
  assumes inv: "queue_inv q"
  shows "queue_inv (snd (queue_enqueue q b))"
proof (cases "q_count q = QUEUE_SIZE")
  case True
  then show ?thesis using inv by (simp add: queue_enqueue_def)
next
  case False
  have t: "0 \<le> q_tail q" using queue_inv_tail [OF inv] by simp
  have "(q_tail q + 1) smod QUEUE_SIZE = (q_tail q + 1) mod QUEUE_SIZE"
    using t by (simp add: smod_nonneg QUEUE_SIZE_def)
  moreover have "(q_tail q + 1) mod QUEUE_SIZE = (q_head q + (q_count q + 1)) mod QUEUE_SIZE"
    using inv by (simp add: queue_inv_def mod_simps add.assoc)
  ultimately show ?thesis
    using inv False by (simp add: queue_enqueue_def queue_inv_def)
qed

text \<open>
  Claim C9.  A full queue (\<open>count = QUEUE_SIZE = 1024\<close>) rejects the byte and is returned
  exactly as it was: head, tail, count and every stored byte.  A queue with room, in a
  state satisfying the ring invariant, accepts it: the byte is stored in the cell at the
  tail and in no other, the tail advances by one modulo the capacity, the head stays,
  the count grows by one, and the FIFO content grows by exactly this byte at its end.
\<close>

theorem queue_enqueue_full_or_append:
  "(q_count q = QUEUE_SIZE \<longrightarrow> queue_enqueue q b = (False, q)) \<and>
   (queue_inv q \<and> q_count q < QUEUE_SIZE \<longrightarrow>
      fst (queue_enqueue q b) = True \<and>
      q_data (snd (queue_enqueue q b)) = (q_data q)[nat (q_tail q) := b] \<and>
      q_data (snd (queue_enqueue q b)) ! nat (q_tail q) = b \<and>
      q_tail (snd (queue_enqueue q b)) = (q_tail q + 1) mod QUEUE_SIZE \<and>
      q_head (snd (queue_enqueue q b)) = q_head q \<and>
      q_count (snd (queue_enqueue q b)) = q_count q + 1 \<and>
      queue_contents (snd (queue_enqueue q b)) = queue_contents q @ [b] \<and>
      queue_inv (snd (queue_enqueue q b)))"
proof (intro conjI impI)
  assume "q_count q = QUEUE_SIZE"
  then show "queue_enqueue q b = (False, q)" by (rule queue_enqueue_full)
next
  assume a: "queue_inv q \<and> q_count q < QUEUE_SIZE"
  then have inv: "queue_inv q" and room: "q_count q < QUEUE_SIZE" by simp_all
  have t: "0 \<le> q_tail q" "q_tail q < QUEUE_SIZE" using queue_inv_tail [OF inv] by simp_all
  have len: "int (length (q_data q)) = QUEUE_SIZE" using inv by (simp add: queue_inv_def)
  show "fst (queue_enqueue q b) = True" using room by (simp add: queue_enqueue_def)
  show "q_data (snd (queue_enqueue q b)) = (q_data q)[nat (q_tail q) := b]"
    using room by (simp add: queue_enqueue_def)
  show "q_data (snd (queue_enqueue q b)) ! nat (q_tail q) = b"
    using room t len by (simp add: queue_enqueue_def)
  show "q_tail (snd (queue_enqueue q b)) = (q_tail q + 1) mod QUEUE_SIZE"
    using room t by (simp add: queue_enqueue_def smod_nonneg QUEUE_SIZE_def)
  show "q_head (snd (queue_enqueue q b)) = q_head q"
    using room by (simp add: queue_enqueue_def)
  show "q_count (snd (queue_enqueue q b)) = q_count q + 1"
    using room by (simp add: queue_enqueue_def)
  show "queue_contents (snd (queue_enqueue q b)) = queue_contents q @ [b]"
    using inv room by (rule queue_enqueue_contents)
  show "queue_inv (snd (queue_enqueue q b))"
    using inv by (rule queue_enqueue_inv)
qed

theorem queue_enqueue_full_or_append_witness:
  "q_count \<lparr>q_data = replicate 1024 0, q_head = 7, q_tail = 7, q_count = 1024\<rparr> = QUEUE_SIZE \<and>
   queue_enqueue \<lparr>q_data = replicate 1024 0, q_head = 7, q_tail = 7, q_count = 1024\<rparr> 65
     = (False, \<lparr>q_data = replicate 1024 0, q_head = 7, q_tail = 7, q_count = 1024\<rparr>) \<and>
   queue_inv \<lparr>q_data = replicate 1024 0, q_head = 1023, q_tail = 0, q_count = 1\<rparr> \<and>
   q_count \<lparr>q_data = replicate 1024 0, q_head = 1023, q_tail = 0, q_count = 1\<rparr> < QUEUE_SIZE \<and>
   queue_contents (snd (queue_enqueue
      \<lparr>q_data = replicate 1024 0, q_head = 1023, q_tail = 0, q_count = 1\<rparr> 65)) = [0, 65]"
proof -
  have full: "q_count \<lparr>q_data = replicate 1024 0, q_head = 7, q_tail = 7, q_count = 1024\<rparr> = QUEUE_SIZE"
    by (simp add: QUEUE_SIZE_def)
  have inv: "queue_inv \<lparr>q_data = replicate 1024 0, q_head = 1023, q_tail = 0, q_count = 1\<rparr>"
    by (simp add: queue_inv_def QUEUE_SIZE_def)
  have room: "q_count \<lparr>q_data = replicate 1024 0, q_head = 1023, q_tail = 0, q_count = 1\<rparr> < QUEUE_SIZE"
    by (simp add: QUEUE_SIZE_def)
  have c: "queue_contents \<lparr>q_data = replicate 1024 (0::uint8_t), q_head = 1023, q_tail = 0, q_count = 1\<rparr> = [0]"
    by (simp add: queue_contents_def QUEUE_SIZE_def)
  show ?thesis
    using full inv room c
      queue_enqueue_full_or_append
        [of "\<lparr>q_data = replicate 1024 0, q_head = 7, q_tail = 7, q_count = 1024\<rparr>" 65]
      queue_enqueue_full_or_append
        [of "\<lparr>q_data = replicate 1024 0, q_head = 1023, q_tail = 0, q_count = 1\<rparr>" 65]
    by simp
qed

section \<open>Memory access on the flat memory map\<close>

lemma unat_and_65535: "unat (a :: uint16_t) AND 65535 = unat a"
proof -
  have "unat a AND mask 16 = unat a"
    unfolding take_bit_eq_mask [symmetric]
    by (rule take_bit_nat_eq_self) (use unsigned_less [of a] in simp)
  then show ?thesis by (simp add: mask_eq_exp_minus_1)
qed

lemma unat_stack_addr: "unat (stack_addr sp) = 256 + unat sp"
  using unsigned_less [of sp, where ?'a = nat]
  by (simp add: stack_addr_def unat_word_ariths unsigned_ucast_eq take_bit_nat_eq_self)

lemma stack_addr_not_io [simp]:
  "stack_addr sp \<noteq> INPUT_ADDR" "stack_addr sp \<noteq> OUTPUT_ADDR"
  "stack_addr sp \<noteq> 0xFFFA" "stack_addr sp \<noteq> 0xFFFB"
  "stack_addr sp \<noteq> 0xFFFE" "stack_addr sp \<noteq> 0xFFFF"
  using unat_stack_addr [of sp] unsigned_less [of sp, where ?'a = nat]
  by (auto simp: INPUT_ADDR_def OUTPUT_ADDR_def)

lemma stack_addr_inj [simp]: "stack_addr a = stack_addr b \<longleftrightarrow> a = b"
proof
  assume "stack_addr a = stack_addr b"
  then have "unat (stack_addr a) = unat (stack_addr b)" by simp
  then show "a = b" by (simp add: unat_stack_addr word_unat_eq_iff)
qed simp

lemma cpu_read_peek: "addr \<noteq> INPUT_ADDR \<Longrightarrow> cpu_read cpu addr = (peek cpu addr, cpu)"
  by (simp add: cpu_read_def peek_def)

lemma le_max_u16 [simp]: "(a :: uint16_t) \<le> 0xFFFF"
  using unsigned_less [of a, where ?'a = nat] by (simp add: word_le_nat_alt)

lemma unat_u16_bound [simp]: "\<not> 65536 \<le> unat (a :: uint16_t)"
  using unsigned_less [of a, where ?'a = nat] by simp

lemma flat_memory_cases:
  assumes "flat_memory cpu"
  obtains (ram) r where
      "bus cpu = [\<lparr>device = Ram r, start_addr = 0x0000, end_addr = 0xFFFF\<rparr>]"
      "ram_size r = 0x10000"
  | (monitored) r where
      "bus cpu = [\<lparr>device = Monitored_ram r, start_addr = 0x0000, end_addr = 0xFFFF\<rparr>]"
      "mon_size r = 0x10000"
proof -
  from assms obtain e where e: "bus cpu = [e]" "start_addr e = 0" "end_addr e = 0xFFFF"
    and d: "case device e of Ram r \<Rightarrow> ram_size r = 0x10000
            | Monitored_ram r \<Rightarrow> mon_size r = 0x10000"
    by (auto simp: flat_memory_def split: list.splits)
  show thesis
  proof (cases "device e")
    case (Ram r)
    with e d have "bus cpu = [\<lparr>device = Ram r, start_addr = 0x0000, end_addr = 0xFFFF\<rparr>]"
      by (cases e) simp
    with Ram d show thesis by (intro ram) simp_all
  next
    case (Monitored_ram r)
    with e d have "bus cpu = [\<lparr>device = Monitored_ram r, start_addr = 0x0000, end_addr = 0xFFFF\<rparr>]"
      by (cases e) simp
    with Monitored_ram d show thesis by (intro monitored) simp_all
  qed
qed

lemma cpu_write_frame [simp]:
  "reg_A (cpu_write cpu addr d) = reg_A cpu"
  "reg_X (cpu_write cpu addr d) = reg_X cpu"
  "reg_Y (cpu_write cpu addr d) = reg_Y cpu"
  "reg_PC (cpu_write cpu addr d) = reg_PC cpu"
  "reg_SP (cpu_write cpu addr d) = reg_SP cpu"
  "reg_P (cpu_write cpu addr d) = reg_P cpu"
  "cycle_count (cpu_write cpu addr d) = cycle_count cpu"
  "input_queue (cpu_write cpu addr d) = input_queue cpu"
  "IRQ_pending (cpu_write cpu addr d) = IRQ_pending cpu"
  "NMI_pending (cpu_write cpu addr d) = NMI_pending cpu"
  "paused (cpu_write cpu addr d) = paused cpu"
  by (simp_all add: cpu_write_def split_def Let_def)

lemma flat_memory_cpu_write:
  assumes "flat_memory cpu"
  shows "flat_memory (cpu_write cpu addr d)"
  using assms
proof (cases rule: flat_memory_cases)
  case (ram r)
  then show ?thesis
    by (simp add: flat_memory_def cpu_write_def ram_write_def)
next
  case (monitored r)
  then show ?thesis
    by (simp add: flat_memory_def cpu_write_def monitored_ram_write_def Let_def split_def)
qed

lemma peek_cpu_write:
  assumes "flat_memory cpu" "addr \<noteq> OUTPUT_ADDR"
  shows "peek (cpu_write cpu addr d) a = (if a = addr then d else peek cpu a)"
  using assms(1)
proof (cases rule: flat_memory_cases)
  case (ram r)
  then show ?thesis using assms(2)
    by (simp add: peek_def cpu_write_def ram_write_def ram_read_def word_unat_eq_iff)
next
  case (monitored r)
  then show ?thesis using assms(2)
    by (simp add: peek_def cpu_write_def monitored_ram_write_def monitored_ram_read_def
        Let_def split_def unat_and_65535 word_unat_eq_iff)
qed

lemma peek_updates [simp]:
  "peek (s\<lparr>reg_A := a\<rparr>) = peek s"
  "peek (s\<lparr>reg_X := a\<rparr>) = peek s"
  "peek (s\<lparr>reg_Y := a\<rparr>) = peek s"
  "peek (s\<lparr>reg_SP := a\<rparr>) = peek s"
  "peek (s\<lparr>reg_P := a\<rparr>) = peek s"
  "peek (s\<lparr>reg_PC := pc\<rparr>) = peek s"
  "peek (s\<lparr>cycle_count := c\<rparr>) = peek s"
  "peek (s\<lparr>IRQ_pending := b\<rparr>) = peek s"
  "peek (s\<lparr>NMI_pending := b\<rparr>) = peek s"
  by (simp_all add: peek_def fun_eq_iff)

lemma flat_memory_updates [simp]:
  "flat_memory (s\<lparr>reg_A := a\<rparr>) = flat_memory s"
  "flat_memory (s\<lparr>reg_X := a\<rparr>) = flat_memory s"
  "flat_memory (s\<lparr>reg_Y := a\<rparr>) = flat_memory s"
  "flat_memory (s\<lparr>reg_SP := a\<rparr>) = flat_memory s"
  "flat_memory (s\<lparr>reg_P := a\<rparr>) = flat_memory s"
  "flat_memory (s\<lparr>reg_PC := pc\<rparr>) = flat_memory s"
  "flat_memory (s\<lparr>cycle_count := c\<rparr>) = flat_memory s"
  "flat_memory (s\<lparr>IRQ_pending := b\<rparr>) = flat_memory s"
  "flat_memory (s\<lparr>NMI_pending := b\<rparr>) = flat_memory s"
  by (simp_all add: flat_memory_def)

lemma push_byte_flat:
  assumes "flat_memory cpu"
  shows "flat_memory (push_byte cpu v)"
    and "peek (push_byte cpu v) a = (if a = stack_addr (reg_SP cpu) then v else peek cpu a)"
    and "reg_SP (push_byte cpu v) = reg_SP cpu - 1"
  using assms
  by (simp_all add: push_byte_def Let_def flat_memory_cpu_write peek_cpu_write
      flip: stack_addr_def)


lemmas fixture_defs = setup_test_cpu_def setup_main_cpu_def cpu_init_def fresh_cpu_def
  fresh_queue_def bus_create_def bus_connect_device_def memory_create_ram_def
  memory_create_monitored_ram_def MAX_DEVICES_def queue_init_def

lemmas access_defs = cpu_read_def cpu_write_def INPUT_ADDR_def OUTPUT_ADDR_def ram_read_def
  ram_write_def fetch_byte_def fetch_word_def push_byte_def pull_byte_def push_word_def
  pull_word_def set_flag_def get_flag_def update_zero_and_negative_flags_def add_cycle_def
  page_cross_cycle_def clock_wait_next_cycle_def

lemma pull_byte_peek:
  "pull_byte cpu = (peek cpu (stack_addr (reg_SP cpu + 1)), cpu\<lparr>reg_SP := reg_SP cpu + 1\<rparr>)"
  by (simp add: pull_byte_def Let_def cpu_read_peek flip: stack_addr_def)

lemma push_byte_frame [simp]:
  "reg_A (push_byte cpu v) = reg_A cpu"
  "reg_X (push_byte cpu v) = reg_X cpu"
  "reg_Y (push_byte cpu v) = reg_Y cpu"
  "reg_PC (push_byte cpu v) = reg_PC cpu"
  "reg_P (push_byte cpu v) = reg_P cpu"
  "cycle_count (push_byte cpu v) = cycle_count cpu"
  "IRQ_pending (push_byte cpu v) = IRQ_pending cpu"
  "NMI_pending (push_byte cpu v) = NMI_pending cpu"
  "paused (push_byte cpu v) = paused cpu"
  by (simp_all add: push_byte_def Let_def)

lemma lo_byte: "(ucast ((v::uint16_t) AND 0xFF) :: uint8_t) = ucast v"
proof -
  have m: "(0xFF :: uint16_t) = mask 8" by (simp add: mask_eq_exp_minus_1)
  show ?thesis unfolding m by (rule bit_word_eqI) (auto simp: bit_simps)
qed

lemma hi_byte: "(ucast (drop_bit 8 (v::uint16_t) AND 0xFF) :: uint8_t) = ucast (drop_bit 8 v)"
  by (rule lo_byte)

lemma push_byte_SP: "reg_SP (push_byte cpu v) = reg_SP cpu - 1"
  by (simp add: push_byte_def Let_def)

lemma push_word_flat:
  assumes "flat_memory cpu"
  shows "flat_memory (push_word cpu v)"
    and "peek (push_word cpu v) a =
           (if a = stack_addr (reg_SP cpu - 1) then ucast v
            else if a = stack_addr (reg_SP cpu) then ucast (drop_bit 8 v)
            else peek cpu a)"
    and "reg_SP (push_word cpu v) = reg_SP cpu - 2"
  using assms by (simp_all add: push_word_def Let_def push_byte_flat lo_byte hi_byte)

lemma push_word_frame [simp]:
  "reg_A (push_word cpu v) = reg_A cpu"
  "reg_X (push_word cpu v) = reg_X cpu"
  "reg_Y (push_word cpu v) = reg_Y cpu"
  "reg_PC (push_word cpu v) = reg_PC cpu"
  "reg_P (push_word cpu v) = reg_P cpu"
  "cycle_count (push_word cpu v) = cycle_count cpu"
  "IRQ_pending (push_word cpu v) = IRQ_pending cpu"
  "NMI_pending (push_word cpu v) = NMI_pending cpu"
  "paused (push_word cpu v) = paused cpu"
  by (simp_all add: push_word_def Let_def)

lemma set_flag_frame [simp]:
  "reg_A (set_flag cpu f v) = reg_A cpu"
  "reg_X (set_flag cpu f v) = reg_X cpu"
  "reg_Y (set_flag cpu f v) = reg_Y cpu"
  "reg_PC (set_flag cpu f v) = reg_PC cpu"
  "reg_SP (set_flag cpu f v) = reg_SP cpu"
  "cycle_count (set_flag cpu f v) = cycle_count cpu"
  "IRQ_pending (set_flag cpu f v) = IRQ_pending cpu"
  "NMI_pending (set_flag cpu f v) = NMI_pending cpu"
  "paused (set_flag cpu f v) = paused cpu"
  "peek (set_flag cpu f v) = peek cpu"
  "flat_memory (set_flag cpu f v) = flat_memory cpu"
  by (simp_all add: set_flag_def)

lemma reg_P_set_flag:
  "reg_P (set_flag cpu f v) =
     (if v then reg_P cpu OR push_bit (flag_value f) 1
      else reg_P cpu AND NOT (push_bit (flag_value f) 1))"
  by (simp add: set_flag_def)

lemma get_flag_set_flag:
  "get_flag (set_flag cpu f v) g = (if g = f then v else get_flag cpu g)"
  by (cases f; cases g) (simp_all add: get_flag_def set_flag_def bit_and_iff bit_or_iff bit_not_iff)

lemma get_flag_frame [simp]:
  "get_flag (cpu\<lparr>reg_PC := pc\<rparr>) f = get_flag cpu f"
  "get_flag (cpu\<lparr>reg_SP := sp\<rparr>) f = get_flag cpu f"
  "get_flag (cpu\<lparr>cycle_count := c\<rparr>) f = get_flag cpu f"
  "get_flag (cpu\<lparr>IRQ_pending := b\<rparr>) f = get_flag cpu f"
  "get_flag (cpu\<lparr>NMI_pending := b\<rparr>) f = get_flag cpu f"
  "get_flag (cpu_write cpu a v) f = get_flag cpu f"
  "get_flag (push_byte cpu v) f = get_flag cpu f"
  "get_flag (push_word cpu w) f = get_flag cpu f"
  by (simp_all add: get_flag_def)

section \<open>Looking up the opcode table\<close>

lemma assign_entry_apply:
  "assign_entry tbl (i, mn, f, cy, by) =
     tbl(i := \<lparr>opcode = i, mnemonic = mn, execute = Some f, cycles = cy, bytes = by\<rparr>)"
  by (simp add: assign_entry_def)

lemma foldl_assign_miss:
  "i \<notin> fst ` set as \<Longrightarrow> foldl assign_entry tbl as i = tbl i"
  by (induction as arbitrary: tbl) (auto simp: assign_entry_apply)

lemma foldl_assign_hit:
  "distinct (map fst as) \<Longrightarrow> (i, mn, f, cy, by) \<in> set as \<Longrightarrow>
   foldl assign_entry tbl as i =
     \<lparr>opcode = i, mnemonic = mn, execute = Some f, cycles = cy, bytes = by\<rparr>"
proof (induction as arbitrary: tbl)
  case Nil then show ?case by simp
next
  case (Cons a as)
  show ?case
  proof (cases "a = (i, mn, f, cy, by)")
    case True
    then have "i \<notin> fst ` set as" using Cons.prems(1) by auto
    then have "foldl assign_entry (assign_entry tbl a) as i = assign_entry tbl a i"
      by (rule foldl_assign_miss)
    then show ?thesis using True by (simp add: assign_entry_apply)
  next
    case False
    then have "(i, mn, f, cy, by) \<in> set as" using Cons.prems(2) by simp
    moreover have "distinct (map fst as)" using Cons.prems(1) by simp
    ultimately show ?thesis using Cons.IH by simp
  qed
qed

lemma foldl_assign_execute:
  "execute (foldl assign_entry tbl as i) = Some f \<Longrightarrow>
     execute (tbl i) = Some f \<or> (\<exists>a \<in> set as. f = fst (snd (snd a)))"
proof (induction as arbitrary: tbl)
  case Nil then show ?case by simp
next
  case (Cons a as)
  from Cons.prems have "execute (foldl assign_entry (assign_entry tbl a) as i) = Some f"
    by simp
  from Cons.IH [OF this]
  show ?case
    by (auto simp: assign_entry_def split: prod.splits if_splits)
qed

lemma opcode_assignments_distinct: "distinct (map fst opcode_assignments)"
  unfolding opcode_assignments_def by simp

lemma opcode_table_hit:
  "(i, mn, f, cy, by) \<in> set opcode_assignments \<Longrightarrow>
   opcode_table i = \<lparr>opcode = i, mnemonic = mn, execute = Some f, cycles = cy, bytes = by\<rparr>"
  unfolding opcode_table_def by (rule foldl_assign_hit [OF opcode_assignments_distinct])

lemma opcode_LDA_abs_x:
  "opcode_table 0xBD = \<lparr>opcode = 0xBD, mnemonic = ''LDA'',
     execute = Some (instr_lda addr_absolute_x), cycles = 4, bytes = 3\<rparr>"
  by (rule opcode_table_hit) (simp add: opcode_assignments_def)

lemma opcode_SBC_imm:
  "opcode_table 0xE9 = \<lparr>opcode = 0xE9, mnemonic = ''SBC'',
     execute = Some (instr_sbc addr_immediate), cycles = 2, bytes = 2\<rparr>"
  by (rule opcode_table_hit) (simp add: opcode_assignments_def)

lemma opcode_BRK:
  "opcode_table 0x00 = \<lparr>opcode = 0x00, mnemonic = ''BRK'',
     execute = Some instr_brk, cycles = 7, bytes = 1\<rparr>"
  by (rule opcode_table_hit) (simp add: opcode_assignments_def)

lemma opcode_NOP:
  "opcode_table 0xEA = \<lparr>opcode = 0xEA, mnemonic = ''NOP'',
     execute = Some instr_nop, cycles = 2, bytes = 1\<rparr>"
  by (rule opcode_table_hit) (simp add: opcode_assignments_def)

lemma opcode_CLI:
  "opcode_table 0x58 = \<lparr>opcode = 0x58, mnemonic = ''CLI'',
     execute = Some instr_cli, cycles = 2, bytes = 1\<rparr>"
  by (rule opcode_table_hit) (simp add: opcode_assignments_def)

lemma opcode_PHP:
  "opcode_table 0x08 = \<lparr>opcode = 0x08, mnemonic = ''PHP'',
     execute = Some instr_php, cycles = 3, bytes = 1\<rparr>"
  by (rule opcode_table_hit) (simp add: opcode_assignments_def)

lemma opcode_PLP:
  "opcode_table 0x28 = \<lparr>opcode = 0x28, mnemonic = ''PLP'',
     execute = Some instr_plp, cycles = 4, bytes = 1\<rparr>"
  by (rule opcode_table_hit) (simp add: opcode_assignments_def)

lemma opcode_RTI:
  "opcode_table 0x40 = \<lparr>opcode = 0x40, mnemonic = ''RTI'',
     execute = Some instr_rti, cycles = 6, bytes = 1\<rparr>"
  by (rule opcode_table_hit) (simp add: opcode_assignments_def)

section \<open>No instruction touches the interrupt latches\<close>

lemma latches_cpu_read [simp]: "latches (snd (cpu_read s a)) = latches s"
  by (simp add: cpu_read_def latches_def split: prod.splits option.splits)

lemma latches_cpu_write [simp]: "latches (cpu_write s a v) = latches s"
  by (simp add: latches_def)

lemma latches_set_flag [simp]: "latches (set_flag s f v) = latches s"
  by (simp add: set_flag_def latches_def)

lemma latches_update_zn [simp]: "latches (update_zero_and_negative_flags s v) = latches s"
  by (simp add: update_zero_and_negative_flags_def)

lemma latches_updates [simp]:
  "latches (s\<lparr>reg_A := a\<rparr>) = latches s"
  "latches (s\<lparr>reg_X := a\<rparr>) = latches s"
  "latches (s\<lparr>reg_Y := a\<rparr>) = latches s"
  "latches (s\<lparr>reg_SP := a\<rparr>) = latches s"
  "latches (s\<lparr>reg_P := a\<rparr>) = latches s"
  "latches (s\<lparr>reg_PC := pc\<rparr>) = latches s"
  "latches (s\<lparr>cycle_count := c\<rparr>) = latches s"
  by (simp_all add: latches_def)

lemma latches_add_cycle [simp]: "latches (add_cycle s) = latches s"
  by (simp add: add_cycle_def)

lemma latches_page_cross_cycle [simp]: "latches (page_cross_cycle ea s) = latches s"
  by (simp add: page_cross_cycle_def)

lemma latches_branch_taken [simp]: "latches (branch_taken ea s) = latches s"
  by (simp add: branch_taken_def)

lemma latches_fetch_byte [simp]: "latches (snd (fetch_byte s)) = latches s"
  by (simp add: fetch_byte_def split_def Let_def)

lemma latches_fetch_word [simp]: "latches (snd (fetch_word s)) = latches s"
  by (simp add: fetch_word_def split_def Let_def)

lemma latches_push_byte [simp]: "latches (push_byte s v) = latches s"
  by (simp add: latches_def)

lemma latches_pull_byte [simp]: "latches (snd (pull_byte s)) = latches s"
  by (simp add: pull_byte_def Let_def)

lemma latches_push_word [simp]: "latches (push_word s v) = latches s"
  by (simp add: push_word_def Let_def)

lemma latches_pull_word [simp]: "latches (snd (pull_word s)) = latches s"
  by (simp add: pull_word_def split_def Let_def)

lemmas addr_defs = addr_immediate_def addr_zero_page_def addr_zero_page_x_def
  addr_zero_page_y_def addr_absolute_def addr_absolute_x_def addr_absolute_y_def
  addr_indirect_def addr_indirect_x_def addr_indirect_y_def addr_relative_def

lemma mode_keeps [simp]:
  "mode_keeps_latches addr_immediate" "mode_keeps_latches addr_zero_page"
  "mode_keeps_latches addr_zero_page_x" "mode_keeps_latches addr_zero_page_y"
  "mode_keeps_latches addr_absolute" "mode_keeps_latches addr_absolute_x"
  "mode_keeps_latches addr_absolute_y" "mode_keeps_latches addr_indirect"
  "mode_keeps_latches addr_indirect_x" "mode_keeps_latches addr_indirect_y"
  "mode_keeps_latches addr_relative"
  by (simp_all add: mode_keeps_latches_def addr_defs split_def Let_def)

lemma mode_keepsD: "mode_keeps_latches m \<Longrightarrow> latches (snd (m s)) = latches s"
  by (simp add: mode_keeps_latches_def)

lemma keeps_mode_instr:
  assumes "mode_keeps_latches m"
  shows "keeps_latches (instr_adc m)" "keeps_latches (instr_and m)" "keeps_latches (instr_asl m)"
    "keeps_latches (instr_bcc m)" "keeps_latches (instr_bcs m)" "keeps_latches (instr_beq m)"
    "keeps_latches (instr_bit m)" "keeps_latches (instr_bmi m)" "keeps_latches (instr_bne m)"
    "keeps_latches (instr_bpl m)" "keeps_latches (instr_bvc m)" "keeps_latches (instr_bvs m)"
    "keeps_latches (instr_cmp m)" "keeps_latches (instr_cpx m)" "keeps_latches (instr_cpy m)"
    "keeps_latches (instr_dec m)" "keeps_latches (instr_eor m)" "keeps_latches (instr_inc m)"
    "keeps_latches (instr_jmp m)" "keeps_latches (instr_jsr m)" "keeps_latches (instr_lda m)"
    "keeps_latches (instr_ldx m)" "keeps_latches (instr_ldy m)" "keeps_latches (instr_lsr m)"
    "keeps_latches (instr_ora m)" "keeps_latches (instr_rol m)" "keeps_latches (instr_ror m)"
    "keeps_latches (instr_sbc m)" "keeps_latches (instr_sta m)" "keeps_latches (instr_stx m)"
    "keeps_latches (instr_sty m)"
  unfolding keeps_latches_def
  by (simp_all add: instr_adc_def instr_and_def instr_asl_def instr_bcc_def instr_bcs_def
      instr_beq_def instr_bit_def instr_bmi_def instr_bne_def instr_bpl_def instr_bvc_def
      instr_bvs_def instr_cmp_def instr_cpx_def instr_cpy_def instr_dec_def instr_eor_def
      instr_inc_def instr_jmp_def instr_jsr_def instr_lda_def instr_ldx_def instr_ldy_def
      instr_lsr_def instr_ora_def instr_rol_def instr_ror_def instr_sbc_def instr_sta_def
      instr_stx_def instr_sty_def split_def Let_def mode_keepsD [OF assms])

lemma keeps_implied_instr:
  "keeps_latches instr_asl_accumulator" "keeps_latches instr_brk" "keeps_latches instr_clc"
  "keeps_latches instr_cld" "keeps_latches instr_cli" "keeps_latches instr_clv"
  "keeps_latches instr_dex" "keeps_latches instr_dey" "keeps_latches instr_inx"
  "keeps_latches instr_iny" "keeps_latches instr_lsr_accumulator" "keeps_latches instr_nop"
  "keeps_latches instr_pha" "keeps_latches instr_php" "keeps_latches instr_pla"
  "keeps_latches instr_plp" "keeps_latches instr_rol_accumulator"
  "keeps_latches instr_ror_accumulator" "keeps_latches instr_rti" "keeps_latches instr_rts"
  "keeps_latches instr_sec" "keeps_latches instr_sed" "keeps_latches instr_sei"
  "keeps_latches instr_tax" "keeps_latches instr_tay" "keeps_latches instr_tsx"
  "keeps_latches instr_txa" "keeps_latches instr_txs" "keeps_latches instr_tya"
  unfolding keeps_latches_def
  by (simp_all add: instr_asl_accumulator_def instr_brk_def instr_clc_def instr_cld_def
      instr_cli_def instr_clv_def instr_dex_def instr_dey_def instr_inx_def instr_iny_def
      instr_lsr_accumulator_def instr_nop_def instr_pha_def instr_php_def instr_pla_def
      instr_plp_def instr_rol_accumulator_def instr_ror_accumulator_def instr_rti_def
      instr_rts_def instr_sec_def instr_sed_def instr_sei_def instr_tax_def instr_tay_def
      instr_tsx_def instr_txa_def instr_txs_def instr_tya_def split_def Let_def)

lemma assignments_keep_latches:
  "\<forall>a \<in> set opcode_assignments. keeps_latches (fst (snd (snd a)))"
  unfolding opcode_assignments_def
  by (simp add: keeps_mode_instr keeps_implied_instr)

lemma opcode_table_keeps_latches:
  "execute (opcode_table i) = Some f \<Longrightarrow> keeps_latches f"
  using foldl_assign_execute [of undefined_entry opcode_assignments i f]
    assignments_keep_latches
  by (auto simp: opcode_table_def undefined_entry_def)

lemma fetch_and_execute_latches:
  "latches (snd (fetch_and_execute s)) = latches s"
proof -
  let ?s1 = "clock_wait_next_cycle s"
  let ?opc = "fst (fetch_byte ?s1)" and ?s2 = "snd (fetch_byte ?s1)"
  have l2: "latches ?s2 = latches s"
    by (simp add: clock_wait_next_cycle_def)
  show ?thesis
  proof (cases "execute (opcode_table ?opc)")
    case None
    then show ?thesis using l2 by (simp add: fetch_and_execute_def Let_def split_def)
  next
    case (Some f)
    then have "keeps_latches f" by (rule opcode_table_keeps_latches)
    then have "latches (f ?s2) = latches s" using l2 by (simp add: keeps_latches_def)
    then show ?thesis using Some by (simp add: fetch_and_execute_def Let_def split_def)
  qed
qed

section \<open>The step, taken apart\<close>

lemma handle_interrupts_entry:
  "handle_interrupts cpu =
     (let handle_nmi = NMI_pending cpu;
          handle_irq = (IRQ_pending cpu \<and> \<not> get_flag cpu FLAG_INTERRUPT);
          cpu1 = (if handle_nmi then cpu\<lparr>NMI_pending := False\<rparr> else cpu);
          cpu2 = (if handle_irq then cpu1\<lparr>IRQ_pending := False\<rparr> else cpu1)
      in if handle_nmi \<or> handle_irq then interrupt_entry handle_nmi handle_irq cpu2
         else cpu)"
  by (cases "IRQ_pending cpu"; cases "get_flag cpu FLAG_INTERRUPT"; cases "NMI_pending cpu")
     (simp_all add: handle_interrupts_def interrupt_entry_def Let_def split_def cpu_read_peek
      INPUT_ADDR_def)

lemma interrupt_entry_regs:
  "reg_SP (interrupt_entry n i cpu) = reg_SP cpu - 3"
  "cycle_count (interrupt_entry n i cpu) = cycle_count cpu + 7"
  "reg_A (interrupt_entry n i cpu) = reg_A cpu"
  "reg_X (interrupt_entry n i cpu) = reg_X cpu"
  "reg_Y (interrupt_entry n i cpu) = reg_Y cpu"
  "IRQ_pending (interrupt_entry n i cpu) = IRQ_pending cpu"
  "NMI_pending (interrupt_entry n i cpu) = NMI_pending cpu"
  "paused (interrupt_entry n i cpu) = paused cpu"
  "get_flag (interrupt_entry n i cpu) f = (if f = FLAG_INTERRUPT then i else get_flag cpu f)"
  by (simp_all add: interrupt_entry_def Let_def push_byte_SP push_word_def
      get_flag_set_flag)

lemma interrupt_entry_memory:
  assumes "flat_memory cpu"
  shows "peek (interrupt_entry n i cpu) a =
           (if a = stack_addr (reg_SP cpu - 2) then reg_P cpu
            else if a = stack_addr (reg_SP cpu - 1) then ucast (reg_PC cpu)
            else if a = stack_addr (reg_SP cpu) then ucast (drop_bit 8 (reg_PC cpu))
            else peek cpu a)"
    and "reg_PC (interrupt_entry n i cpu) =
           ucast (peek cpu (if n then 0xFFFA else 0xFFFE)) OR
           push_bit 8 (ucast (peek cpu (if n then 0xFFFB else 0xFFFF)))"
    and "flat_memory (interrupt_entry n i cpu)"
  using assms
  by (simp_all add: interrupt_entry_def Let_def push_byte_flat push_word_flat)

lemma handle_interrupts_none:
  "\<not> NMI_pending cpu \<Longrightarrow> \<not> IRQ_pending cpu \<or> get_flag cpu FLAG_INTERRUPT \<Longrightarrow>
   handle_interrupts cpu = cpu"
  by (auto simp: handle_interrupts_entry Let_def)

lemma handle_interrupts_nmi:
  assumes "NMI_pending cpu"
  shows "handle_interrupts cpu =
           interrupt_entry True (IRQ_pending cpu \<and> \<not> get_flag cpu FLAG_INTERRUPT)
             (if IRQ_pending cpu \<and> \<not> get_flag cpu FLAG_INTERRUPT
              then cpu\<lparr>NMI_pending := False, IRQ_pending := False\<rparr>
              else cpu\<lparr>NMI_pending := False\<rparr>)"
  using assms
  by (cases "IRQ_pending cpu"; cases "get_flag cpu FLAG_INTERRUPT")
     (simp_all add: handle_interrupts_entry Let_def)

lemma handle_interrupts_irq:
  assumes "IRQ_pending cpu" "\<not> get_flag cpu FLAG_INTERRUPT" "\<not> NMI_pending cpu"
  shows "handle_interrupts cpu = interrupt_entry False True (cpu\<lparr>IRQ_pending := False\<rparr>)"
  using assms by (simp add: handle_interrupts_entry Let_def)

lemma fetch_and_execute_plain:
  assumes "reg_PC s \<noteq> INPUT_ADDR"
    and "execute (opcode_table (peek s (reg_PC s))) = Some f"
  shows "fetch_and_execute s =
           (CPU_SUCCESS, f (s\<lparr>cycle_count := cycle_count s + 1, reg_PC := reg_PC s + 1\<rparr>))"
  using assms
  by (simp add: fetch_and_execute_def clock_wait_next_cycle_def fetch_byte_def cpu_read_peek
      Let_def)

lemma step_unpaused:
  "\<not> paused cpu \<Longrightarrow>
   cpu_execute_instruction cpu = Some (fetch_and_execute (handle_interrupts cpu)) \<and>
   step_status cpu = fst (fetch_and_execute (handle_interrupts cpu)) \<and>
   after_step cpu = snd (fetch_and_execute (handle_interrupts cpu))"
  by (simp add: cpu_execute_instruction_def step_status_def after_step_def)

lemma after_step_latches:
  "\<not> paused cpu \<Longrightarrow> latches (after_step cpu) = latches (handle_interrupts cpu)"
  by (simp add: step_unpaused fetch_and_execute_latches)

lemmas step_defs = after_step_def step_status_def cpu_execute_instruction_def
  handle_interrupts_def fetch_and_execute_def cpu_inject_NMI_def cpu_inject_IRQ_def peek_def
  Let_def split_def

section \<open>Reset\<close>

text \<open>
  Claim C1, as the code has it.  For every state and every memory, after \<^verbatim>\<open>cpu_reset\<close>
  the program counter is the little-endian word the bus returns at \<open>0xFFFC/0xFFFD\<close>,
  \<open>SP = 0xFD\<close>, \<open>A = X = Y = 0\<close>, the cycle counter is 0 and both latches are clear; the
  status register is \<open>0x34\<close>, that is \<open>I\<close>, \<open>B\<close> and \<open>U\<close> set and the other flags clear.
  \<^verbatim>\<open>cpu_init\<close> sets the same \<open>P\<close>, \<open>SP\<close> and cycle counter.  The unit tests assert
  \<open>0x34\<close> after both.
\<close>

theorem cpu_reset_registers:
  "reg_PC (cpu_reset cpu)
     = push_bit 8 (ucast (bus_read (bus cpu) 0xFFFD)) OR ucast (bus_read (bus cpu) 0xFFFC) \<and>
   reg_SP (cpu_reset cpu) = 0xFD \<and>
   reg_P (cpu_reset cpu) = 0x34 \<and>
   get_flag (cpu_reset cpu) FLAG_INTERRUPT \<and>
   get_flag (cpu_reset cpu) FLAG_UNUSED \<and>
   get_flag (cpu_reset cpu) FLAG_BREAK \<and>
   \<not> get_flag (cpu_reset cpu) FLAG_CARRY \<and>
   \<not> get_flag (cpu_reset cpu) FLAG_ZERO \<and>
   \<not> get_flag (cpu_reset cpu) FLAG_DECIMAL \<and>
   \<not> get_flag (cpu_reset cpu) FLAG_OVERFLOW \<and>
   \<not> get_flag (cpu_reset cpu) FLAG_NEGATIVE \<and>
   reg_A (cpu_reset cpu) = 0 \<and> reg_X (cpu_reset cpu) = 0 \<and> reg_Y (cpu_reset cpu) = 0 \<and>
   cycle_count (cpu_reset cpu) = 0 \<and>
   \<not> IRQ_pending (cpu_reset cpu) \<and> \<not> NMI_pending (cpu_reset cpu) \<and>
   bus (cpu_reset cpu) = bus cpu \<and>
   reg_P (cpu_init cpu) = 0x34 \<and> reg_SP (cpu_init cpu) = 0xFD \<and>
   cycle_count (cpu_init cpu) = 0"
  by (simp add: cpu_reset_def cpu_init_def cpu_read_def INPUT_ADDR_def get_flag_def Let_def)

text \<open>
  Claim C1 as stated asks for \<open>P = 0x24\<close>.  On the test machine with the reset vector set
  to \<open>0x8000\<close> every other part of the claim holds after the reset and \<open>P\<close> is \<open>0x34\<close>.
\<close>

theorem cpu_reset_status_counterexample:
  "reg_PC (cpu_reset reset_demo) = 0x8000 \<and>
   reg_SP (cpu_reset reset_demo) = 0xFD \<and>
   reg_A (cpu_reset reset_demo) = 0 \<and> reg_X (cpu_reset reset_demo) = 0 \<and>
   reg_Y (cpu_reset reset_demo) = 0 \<and> cycle_count (cpu_reset reset_demo) = 0 \<and>
   reg_P (cpu_reset reset_demo) = 0x34 \<and>
   reg_P (cpu_reset reset_demo) \<noteq> 0x24"
  by (simp add: reset_demo_def fixture_defs access_defs cpu_reset_def Let_def)

section \<open>Non-maskable interrupt\<close>

lemma nmi_demo_facts:
  "flat_memory nmi_demo" "\<not> paused nmi_demo" "NMI_pending nmi_demo"
  "\<not> IRQ_pending nmi_demo" "reg_PC nmi_demo = 0xC000" "reg_SP nmi_demo = 0xFD"
  "reg_P nmi_demo = 0x34" "cycle_count nmi_demo = 0"
  "peek nmi_demo 0xFFFA = 0x00" "peek nmi_demo 0xFFFB = 0x90" "peek nmi_demo 0x9000 = 0xEA"
  by (simp_all add: nmi_demo_def cpu_inject_NMI_def fixture_defs access_defs flat_memory_def
      peek_def)

text \<open>
  Claim C2, as the code has it.  A step of a CPU that is not paused and has the NMI latch
  set runs the interrupt entry before it fetches: the latch is cleared (and is still
  clear when the step ends); three bytes go on the stack, the high byte of the pre-step
  \<open>PC\<close>, its low byte, and \<open>P\<close> as it stands, with \<open>B\<close> and \<open>U\<close> neither cleared nor set;
  \<open>SP\<close> drops by three; \<open>PC\<close> is loaded from the little-endian vector at
  \<open>0xFFFA/0xFFFB\<close>; seven cycles are counted; \<open>A\<close>, \<open>X\<close>, \<open>Y\<close> and every flag other than
  \<open>I\<close> are as before.  The same step then fetches and executes the instruction at the
  vector.  The statements about memory are for the flat memory map.  Nothing is said
  here about \<open>I\<close>.
\<close>

theorem nmi_service:
  "NMI_pending cpu \<Longrightarrow> \<not> paused cpu \<Longrightarrow>
   cpu_execute_instruction cpu = Some (fetch_and_execute (handle_interrupts cpu)) \<and>
   \<not> NMI_pending (handle_interrupts cpu) \<and>
   \<not> NMI_pending (after_step cpu) \<and>
   reg_SP (handle_interrupts cpu) = reg_SP cpu - 3 \<and>
   cycle_count (handle_interrupts cpu) = cycle_count cpu + 7 \<and>
   reg_A (handle_interrupts cpu) = reg_A cpu \<and>
   reg_X (handle_interrupts cpu) = reg_X cpu \<and>
   reg_Y (handle_interrupts cpu) = reg_Y cpu \<and>
   get_flag (handle_interrupts cpu) FLAG_CARRY = get_flag cpu FLAG_CARRY \<and>
   get_flag (handle_interrupts cpu) FLAG_ZERO = get_flag cpu FLAG_ZERO \<and>
   get_flag (handle_interrupts cpu) FLAG_DECIMAL = get_flag cpu FLAG_DECIMAL \<and>
   get_flag (handle_interrupts cpu) FLAG_BREAK = get_flag cpu FLAG_BREAK \<and>
   get_flag (handle_interrupts cpu) FLAG_UNUSED = get_flag cpu FLAG_UNUSED \<and>
   get_flag (handle_interrupts cpu) FLAG_OVERFLOW = get_flag cpu FLAG_OVERFLOW \<and>
   get_flag (handle_interrupts cpu) FLAG_NEGATIVE = get_flag cpu FLAG_NEGATIVE \<and>
   (flat_memory cpu \<longrightarrow>
      peek (handle_interrupts cpu) (stack_addr (reg_SP cpu)) = ucast (drop_bit 8 (reg_PC cpu)) \<and>
      peek (handle_interrupts cpu) (stack_addr (reg_SP cpu - 1)) = ucast (reg_PC cpu) \<and>
      peek (handle_interrupts cpu) (stack_addr (reg_SP cpu - 2)) = reg_P cpu \<and>
      reg_PC (handle_interrupts cpu)
        = ucast (peek cpu 0xFFFA) OR push_bit 8 (ucast (peek cpu 0xFFFB)))"
proof -
  assume nmi: "NMI_pending cpu" and run: "\<not> paused cpu"
  let ?c = "if IRQ_pending cpu \<and> \<not> get_flag cpu FLAG_INTERRUPT
            then cpu\<lparr>NMI_pending := False, IRQ_pending := False\<rparr>
            else cpu\<lparr>NMI_pending := False\<rparr>"
  note h = handle_interrupts_nmi [OF nmi]
  have l: "\<not> NMI_pending (handle_interrupts cpu)"
    by (simp add: h interrupt_entry_regs)
  have l': "\<not> NMI_pending (after_step cpu)"
    using after_step_latches [OF run] l by (simp add: latches_def)
  have regs: "reg_SP (handle_interrupts cpu) = reg_SP cpu - 3"
    "cycle_count (handle_interrupts cpu) = cycle_count cpu + 7"
    "reg_A (handle_interrupts cpu) = reg_A cpu"
    "reg_X (handle_interrupts cpu) = reg_X cpu"
    "reg_Y (handle_interrupts cpu) = reg_Y cpu"
    by (simp_all add: h interrupt_entry_regs)
  have flags: "f \<noteq> FLAG_INTERRUPT \<Longrightarrow> get_flag (handle_interrupts cpu) f = get_flag cpu f" for f
    by (simp add: h interrupt_entry_regs)
  have mem: "peek (handle_interrupts cpu) (stack_addr (reg_SP cpu)) = ucast (drop_bit 8 (reg_PC cpu))"
    "peek (handle_interrupts cpu) (stack_addr (reg_SP cpu - 1)) = ucast (reg_PC cpu)"
    "peek (handle_interrupts cpu) (stack_addr (reg_SP cpu - 2)) = reg_P cpu"
    "reg_PC (handle_interrupts cpu) = ucast (peek cpu 0xFFFA) OR push_bit 8 (ucast (peek cpu 0xFFFB))"
    if "flat_memory cpu"
  proof -
    have f: "flat_memory ?c" using that by (simp add: flat_memory_def)
    have p: "peek ?c = peek cpu" by (simp add: peek_def fun_eq_iff)
    show "peek (handle_interrupts cpu) (stack_addr (reg_SP cpu)) = ucast (drop_bit 8 (reg_PC cpu))"
      "peek (handle_interrupts cpu) (stack_addr (reg_SP cpu - 1)) = ucast (reg_PC cpu)"
      "peek (handle_interrupts cpu) (stack_addr (reg_SP cpu - 2)) = reg_P cpu"
      "reg_PC (handle_interrupts cpu) = ucast (peek cpu 0xFFFA) OR push_bit 8 (ucast (peek cpu 0xFFFB))"
      by (simp_all add: h interrupt_entry_memory [OF f] p)
  qed
  show ?thesis
    using l l' regs mem by (simp add: step_unpaused [OF run] flags)
qed

theorem nmi_service_witness:
  "NMI_pending nmi_demo \<and> \<not> paused nmi_demo \<and> flat_memory nmi_demo \<and>
   \<not> NMI_pending (after_step nmi_demo) \<and>
   peek (handle_interrupts nmi_demo) 0x01FD = 0xC0 \<and>
   peek (handle_interrupts nmi_demo) 0x01FC = 0x00 \<and>
   peek (handle_interrupts nmi_demo) 0x01FB = 0x34 \<and>
   reg_SP (handle_interrupts nmi_demo) = 0xFA \<and>
   reg_PC (handle_interrupts nmi_demo) = 0x9000 \<and>
   cycle_count (handle_interrupts nmi_demo) = 7"
  using nmi_service [of nmi_demo]
  by (simp add: nmi_demo_facts stack_addr_def)

text \<open>
  Claim C2 as stated fails on the test machine with an NMI injected while it runs
  \<^verbatim>\<open>NOP\<close>s at \<open>0xC000\<close>, \<open>P = 0x34\<close> as \<^verbatim>\<open>cpu_init\<close> leaves it and a \<^verbatim>\<open>NOP\<close> at the
  handler \<open>0x9000\<close>.  The status byte pushed is \<open>0x34\<close>, with \<open>B\<close> set; and the source
  line \<^verbatim>\<open>set_flag(cpu, FLAG_INTERRUPT, handle_irq ? true : false)\<close>, under the comment
  ``Set Interrupt Disable flag'', clears \<open>I\<close> when only the NMI is handled.  The step
  ends after the handler's first instruction, at \<open>0x9001\<close> and eight cycles.
\<close>

theorem nmi_service_counterexample:
  "NMI_pending nmi_demo \<and> \<not> paused nmi_demo \<and>
   get_flag nmi_demo FLAG_INTERRUPT \<and> get_flag nmi_demo FLAG_BREAK \<and>
   peek (handle_interrupts nmi_demo) 0x01FB = 0x34 \<and>
   bit (peek (handle_interrupts nmi_demo) 0x01FB) (flag_value FLAG_BREAK) \<and>
   \<not> get_flag (handle_interrupts nmi_demo) FLAG_INTERRUPT \<and>
   step_status nmi_demo = CPU_SUCCESS \<and>
   peek (after_step nmi_demo) 0x01FB = 0x34 \<and>
   \<not> get_flag (after_step nmi_demo) FLAG_INTERRUPT \<and>
   reg_PC (after_step nmi_demo) = 0x9001 \<and>
   cycle_count (after_step nmi_demo) = 8"
proof -
  let ?c = "nmi_demo\<lparr>NMI_pending := False\<rparr>"
  let ?h = "handle_interrupts nmi_demo"
  have h: "?h = interrupt_entry True False ?c"
    using handle_interrupts_nmi [of nmi_demo] by (simp add: nmi_demo_facts)
  have f: "flat_memory ?c" by (simp add: nmi_demo_facts)
  have hp: "peek ?h 0x01FB = 0x34" "reg_PC ?h = 0x9000" "peek ?h 0x9000 = 0xEA"
    by (simp_all add: h interrupt_entry_memory [OF f] nmi_demo_facts stack_addr_def)
  have hr: "cycle_count ?h = 7" "\<not> get_flag ?h FLAG_INTERRUPT"
    by (simp_all add: h interrupt_entry_regs nmi_demo_facts)
  have fe: "fetch_and_execute ?h =
      (CPU_SUCCESS, instr_nop (?h\<lparr>cycle_count := cycle_count ?h + 1, reg_PC := reg_PC ?h + 1\<rparr>))"
    by (rule fetch_and_execute_plain) (simp_all add: hp INPUT_ADDR_def opcode_NOP)
  have st: "step_status nmi_demo = CPU_SUCCESS"
    and af: "after_step nmi_demo = ?h\<lparr>cycle_count := cycle_count ?h + 1, reg_PC := reg_PC ?h + 1\<rparr>"
    using step_unpaused [of nmi_demo] by (simp_all add: nmi_demo_facts fe instr_nop_def)
  have fl: "get_flag nmi_demo FLAG_INTERRUPT" "get_flag nmi_demo FLAG_BREAK"
    by (simp_all add: get_flag_def nmi_demo_facts)
  show ?thesis
    by (simp add: st af hp hr fl nmi_demo_facts)
qed

section \<open>Cycle counting\<close>

text \<open>
  Claim C3 at its own example.  On the test machine with \<open>X = 0x01\<close> and
  \<^verbatim>\<open>BD FF 10\<close> (\<^verbatim>\<open>LDA $10FF,X\<close>) at \<open>PC = 0x8000\<close>, one step loads \<open>A\<close> from \<open>0x1100\<close>
  and raises the cycle count from 0 to 2: one cycle from \<^verbatim>\<open>clock_wait_next_cycle\<close> and
  one for the page crossed.  The table's base cost of the opcode, 4, is stored in the
  entry and never added by the step.
\<close>

theorem lda_page_cross_counts_two_cycles:
  "reg_X lda_demo = 0x01 \<and> reg_PC lda_demo = 0x8000 \<and>
   peek lda_demo 0x8000 = 0xBD \<and> peek lda_demo 0x8001 = 0xFF \<and> peek lda_demo 0x8002 = 0x10 \<and>
   peek lda_demo 0x1100 = 0x42 \<and> cycle_count lda_demo = 0 \<and>
   cycles (opcode_table 0xBD) = 4 \<and>
   step_status lda_demo = CPU_SUCCESS \<and>
   reg_A (after_step lda_demo) = 0x42 \<and>
   reg_PC (after_step lda_demo) = 0x8003 \<and>
   cycle_count (after_step lda_demo) = 2"
  by (simp add: lda_demo_def fixture_defs access_defs step_defs opcode_LDA_abs_x
      instr_lda_def addr_absolute_x_def)

section \<open>SBC in decimal mode\<close>

text \<open>
  With \<open>D\<close> set \<^verbatim>\<open>instr_sbc\<close> consumes its operand and does nothing else.
\<close>

lemma sbc_decimal_no_effect:
  "get_flag cpu FLAG_DECIMAL \<Longrightarrow> reg_PC cpu \<noteq> INPUT_ADDR \<Longrightarrow>
   instr_sbc addr_immediate cpu = cpu\<lparr>reg_PC := reg_PC cpu + 1\<rparr>"
  by (simp add: instr_sbc_def addr_immediate_def Let_def cpu_read_peek page_cross_cycle_def
      get_flag_def)

text \<open>
  Claim C4 at a failing input.  On the test machine with \<open>D\<close> and \<open>C\<close> set, \<open>A = 0x10\<close>
  and \<^verbatim>\<open>E9 01\<close> (\<^verbatim>\<open>SBC #$01\<close>) at \<open>PC\<close>, the decimal difference is \<open>0x09\<close>; the step leaves
  \<open>A = 0x10\<close> and \<open>P\<close> unchanged.
\<close>

theorem sbc_decimal_leaves_accumulator:
  "get_flag sbc_demo FLAG_DECIMAL \<and> get_flag sbc_demo FLAG_CARRY \<and>
   reg_A sbc_demo = 0x10 \<and> reg_P sbc_demo = 0x3D \<and> reg_PC sbc_demo = 0x8000 \<and>
   peek sbc_demo 0x8000 = 0xE9 \<and> peek sbc_demo 0x8001 = 0x01 \<and>
   step_status sbc_demo = CPU_SUCCESS \<and>
   reg_A (after_step sbc_demo) = 0x10 \<and>
   reg_P (after_step sbc_demo) = 0x3D \<and>
   reg_PC (after_step sbc_demo) = 0x8002"
  by (simp add: sbc_demo_def fixture_defs access_defs step_defs opcode_SBC_imm
      instr_sbc_def addr_immediate_def)

section \<open>BRK\<close>

text \<open>
  What \<^verbatim>\<open>instr_brk\<close> does on the flat memory map: the return address pushed is the
  \<open>PC\<close> after the padding byte, the status byte pushed is \<open>P | 0x10\<close>, \<open>I\<close> and \<open>B\<close> are
  set in \<open>P\<close>, and \<open>PC\<close> is loaded from \<open>0xFFFE/0xFFFF\<close>.
\<close>

lemma instr_brk_flat:
  assumes "flat_memory cpu"
  shows "reg_PC (instr_brk cpu) = ucast (peek cpu 0xFFFE) OR push_bit 8 (ucast (peek cpu 0xFFFF))"
    and "reg_SP (instr_brk cpu) = reg_SP cpu - 3"
    and "peek (instr_brk cpu) (stack_addr (reg_SP cpu)) = ucast (drop_bit 8 (reg_PC cpu + 1))"
    and "peek (instr_brk cpu) (stack_addr (reg_SP cpu - 1)) = ucast (reg_PC cpu + 1)"
    and "peek (instr_brk cpu) (stack_addr (reg_SP cpu - 2)) = reg_P cpu OR 0x10"
    and "get_flag (instr_brk cpu) FLAG_INTERRUPT"
    and "get_flag (instr_brk cpu) FLAG_BREAK"
  using assms
  by (simp_all add: instr_brk_def Let_def split_def cpu_read_peek INPUT_ADDR_def
      push_byte_flat push_word_flat push_byte_SP get_flag_set_flag reg_P_set_flag)

text \<open>
  \<^verbatim>\<open>instr_rti\<close> assigns the pulled byte to \<open>P\<close> as it is, so a program can clear \<open>U\<close>:
  on the test machine, whose stack page is zero, a single \<^verbatim>\<open>RTI\<close> leaves \<open>P = 0x00\<close>.
\<close>

lemma instr_rti_status: "reg_P (instr_rti cpu) = peek cpu (stack_addr (reg_SP cpu + 1))"
  by (simp add: instr_rti_def pull_word_def pull_byte_peek Let_def split_def)

lemma rti_demo_facts:
  "\<not> paused rti_demo" "\<not> NMI_pending rti_demo" "\<not> IRQ_pending rti_demo"
  "reg_PC rti_demo = 0x8000" "reg_SP rti_demo = 0xFD" "reg_P rti_demo = 0x34"
  "peek rti_demo 0x8000 = 0x40" "peek rti_demo 0x01FE = 0x00"
  by (simp_all add: rti_demo_def fixture_defs access_defs peek_def)

lemma rti_clears_unused_bit:
  "get_flag rti_demo FLAG_UNUSED \<and> step_status rti_demo = CPU_SUCCESS \<and>
   reg_P (after_step rti_demo) = 0x00 \<and> \<not> get_flag (after_step rti_demo) FLAG_UNUSED"
proof -
  let ?s = "rti_demo\<lparr>cycle_count := cycle_count rti_demo + 1, reg_PC := reg_PC rti_demo + 1\<rparr>"
  have hi: "handle_interrupts rti_demo = rti_demo"
    by (rule handle_interrupts_none) (simp_all add: rti_demo_facts)
  have fe: "fetch_and_execute rti_demo = (CPU_SUCCESS, instr_rti ?s)"
    by (rule fetch_and_execute_plain) (simp_all add: rti_demo_facts INPUT_ADDR_def opcode_RTI)
  have st: "step_status rti_demo = CPU_SUCCESS" and af: "after_step rti_demo = instr_rti ?s"
    using step_unpaused [of rti_demo] by (simp_all add: rti_demo_facts hi fe)
  have p: "reg_P (after_step rti_demo) = 0x00"
    by (simp add: af instr_rti_status rti_demo_facts stack_addr_def)
  show ?thesis using st p by (simp add: get_flag_def rti_demo_facts)
qed

lemma brk_demo_facts:
  "flat_memory brk_demo" "\<not> paused brk_demo" "\<not> NMI_pending brk_demo"
  "\<not> IRQ_pending brk_demo" "reg_PC brk_demo = 0x8000" "reg_SP brk_demo = 0xFD"
  "reg_P brk_demo = 0x00" "peek brk_demo 0x8000 = 0x00"
  "peek brk_demo 0xFFFE = 0x34" "peek brk_demo 0xFFFF = 0x12"
  by (simp_all add: brk_demo_def fixture_defs access_defs flat_memory_def peek_def)

text \<open>
  Claim C5 at a failing input.  On the test machine with \<open>P = 0x00\<close> and \<^verbatim>\<open>BRK\<close> at
  \<open>PC = 0x8000\<close>, the step pushes \<open>0x80\<close>, \<open>0x02\<close> and then the status byte \<open>0x10\<close>, where
  \<open>P | 0x30\<close> is \<open>0x30\<close>; \<open>I\<close> is set and \<open>PC\<close> is loaded from the vector.
\<close>

theorem brk_pushes_status_without_unused_bit:
  "reg_P brk_demo = 0x00 \<and> reg_PC brk_demo = 0x8000 \<and> reg_SP brk_demo = 0xFD \<and>
   peek brk_demo 0x8000 = 0x00 \<and>
   step_status brk_demo = CPU_SUCCESS \<and>
   peek (after_step brk_demo) 0x01FD = 0x80 \<and>
   peek (after_step brk_demo) 0x01FC = 0x02 \<and>
   peek (after_step brk_demo) 0x01FB = 0x10 \<and>
   reg_SP (after_step brk_demo) = 0xFA \<and>
   get_flag (after_step brk_demo) FLAG_INTERRUPT \<and>
   reg_PC (after_step brk_demo) = 0x1234"
proof -
  let ?s = "brk_demo\<lparr>cycle_count := cycle_count brk_demo + 1, reg_PC := reg_PC brk_demo + 1\<rparr>"
  have hi: "handle_interrupts brk_demo = brk_demo"
    by (rule handle_interrupts_none) (simp_all add: brk_demo_facts)
  have fe: "fetch_and_execute brk_demo = (CPU_SUCCESS, instr_brk ?s)"
    by (rule fetch_and_execute_plain) (simp_all add: brk_demo_facts INPUT_ADDR_def opcode_BRK)
  have st: "step_status brk_demo = CPU_SUCCESS" and af: "after_step brk_demo = instr_brk ?s"
    using step_unpaused [of brk_demo] by (simp_all add: brk_demo_facts hi fe)
  have flat: "flat_memory ?s" by (simp add: brk_demo_facts)
  show ?thesis
    using instr_brk_flat [OF flat]
    by (simp add: st af brk_demo_facts stack_addr_def)
qed

section \<open>The serial output port\<close>

text \<open>
  Claim C6.  A write of \<open>b\<close> to \<open>0xD012\<close> is exactly one \<^verbatim>\<open>queue_enqueue\<close> of \<open>b\<close> on the
  output queue: nothing else in the state changes.  The bus, and so every stored byte, is
  as before; every read returns what it returned before the write, and the read of
  \<open>0xD012\<close> returns the byte the bus holds there.  Where the queue has room the byte is
  the new last element of its content (a full queue rejects it, as in claim C9).
\<close>

theorem cpu_write_output_port:
  "cpu_write cpu 0xD012 b = cpu\<lparr>output_queue := snd (queue_enqueue (output_queue cpu) b)\<rparr> \<and>
   bus (cpu_write cpu 0xD012 b) = bus cpu \<and>
   (\<forall>a. bus_read (bus (cpu_write cpu 0xD012 b)) a = bus_read (bus cpu) a) \<and>
   (\<forall>a. fst (cpu_read (cpu_write cpu 0xD012 b) a) = fst (cpu_read cpu a)) \<and>
   fst (cpu_read (cpu_write cpu 0xD012 b) 0xD012) = bus_read (bus cpu) 0xD012 \<and>
   (queue_inv (output_queue cpu) \<and> q_count (output_queue cpu) < QUEUE_SIZE \<longrightarrow>
      queue_contents (output_queue (cpu_write cpu 0xD012 b))
        = queue_contents (output_queue cpu) @ [b])"
  by (simp add: cpu_write_def cpu_read_def OUTPUT_ADDR_def INPUT_ADDR_def queue_enqueue_contents
      split: prod.splits option.splits)


theorem cpu_write_output_port_witness:
  "queue_inv (output_queue setup_main_cpu) \<and>
   q_count (output_queue setup_main_cpu) < QUEUE_SIZE \<and>
   queue_contents (output_queue (cpu_write setup_main_cpu 0xD012 0x41)) = [0x41] \<and>
   fst (cpu_read (cpu_write setup_main_cpu 0xD012 0x41) 0xD012) = 0x00"
proof -
  have inv: "queue_inv (output_queue setup_main_cpu)"
    by (simp add: fixture_defs queue_inv_def QUEUE_SIZE_def)
  have room: "q_count (output_queue setup_main_cpu) < QUEUE_SIZE"
    by (simp add: fixture_defs QUEUE_SIZE_def)
  have empty: "queue_contents (output_queue setup_main_cpu) = []"
    by (simp add: fixture_defs queue_contents_def)
  have stored: "bus_read (bus setup_main_cpu) 0xD012 = 0x00"
    by (simp add: fixture_defs monitored_ram_read_def)
  have "queue_inv (output_queue setup_main_cpu) \<and>
        q_count (output_queue setup_main_cpu) < QUEUE_SIZE \<longrightarrow>
          queue_contents (output_queue (cpu_write setup_main_cpu 0xD012 0x41))
            = queue_contents (output_queue setup_main_cpu) @ [0x41]"
    using cpu_write_output_port [of setup_main_cpu "0x41"] by (elim conjE) assumption
  moreover have "fst (cpu_read (cpu_write setup_main_cpu 0xD012 0x41) 0xD012)
           = bus_read (bus setup_main_cpu) 0xD012"
    using cpu_write_output_port [of setup_main_cpu "0x41"] by (elim conjE) assumption
  ultimately show ?thesis using inv room empty stored by simp
qed

section \<open>The monitored test status\<close>

lemma queue_enqueue_count:
  "q_count q < QUEUE_SIZE \<Longrightarrow> q_count (snd (queue_enqueue q b)) = q_count q + 1"
  by (simp add: queue_enqueue_def)

lemma enqueue_message_contents:
  "queue_inv q \<Longrightarrow> q_count q + int (length msg) \<le> QUEUE_SIZE \<Longrightarrow>
   queue_inv (enqueue_message msg q) \<and>
   q_count (enqueue_message msg q) = q_count q + int (length msg) \<and>
   queue_contents (enqueue_message msg q) = queue_contents q @ map of_char msg"
proof (induction msg arbitrary: q)
  case Nil
  then show ?case by simp
next
  case (Cons c cs)
  let ?q = "snd (queue_enqueue q (of_char c))"
  have room: "q_count q < QUEUE_SIZE" using Cons.prems(2) by simp
  have inv: "queue_inv ?q" using Cons.prems(1) by (rule queue_enqueue_inv)
  have cnt: "q_count ?q = q_count q + 1" using room by (rule queue_enqueue_count)
  have con: "queue_contents ?q = queue_contents q @ [of_char c]"
    using Cons.prems(1) room by (rule queue_enqueue_contents)
  have "q_count ?q + int (length cs) \<le> QUEUE_SIZE" using cnt Cons.prems(2) by simp
  from Cons.IH [OF inv this] show ?case using cnt con by simp
qed

text \<open>
  Claim C7.  A write of \<open>b\<close> to \<open>0x6001\<close> of the monitored RAM stores \<open>b\<close> in the backing
  array (at \<open>0x6001\<close> masked by the size, so a read of \<open>0x6001\<close> returns it) and calls
  \<^verbatim>\<open>queue_enqueue\<close> once for each character, in order, of
  \<open>6502 FUNCTIONAL TEST PASSED\r\n\<close> when \<open>b = 0\<close> and of
  \<open>6502 FUNCTIONAL TEST FAILED\r\n\<close> otherwise; either message has 29 characters.  Where
  the queue has room for 29 bytes its content grows by exactly these bytes.
\<close>

theorem monitored_ram_write_test_status:
  "monitored_ram_write ram out 0x6001 b =
     (ram\<lparr>mon_data := (mon_data ram)(24577 AND (mon_size ram - 1) := b)\<rparr>,
      enqueue_message (if b = 0x00 then ''6502 FUNCTIONAL TEST PASSED'' @ CRLF
                       else ''6502 FUNCTIONAL TEST FAILED'' @ CRLF) out) \<and>
   monitored_ram_read (fst (monitored_ram_write ram out 0x6001 b)) 0x6001 = b \<and>
   length (''6502 FUNCTIONAL TEST PASSED'' @ CRLF) = 29 \<and>
   length (''6502 FUNCTIONAL TEST FAILED'' @ CRLF) = 29 \<and>
   (queue_inv out \<and> q_count out + 29 \<le> QUEUE_SIZE \<longrightarrow>
      queue_contents (snd (monitored_ram_write ram out 0x6001 b))
        = queue_contents out @
          map of_char (if b = 0x00 then ''6502 FUNCTIONAL TEST PASSED'' @ CRLF
                       else ''6502 FUNCTIONAL TEST FAILED'' @ CRLF))"
proof -
  let ?msg = "if b = 0x00 then ''6502 FUNCTIONAL TEST PASSED'' @ CRLF
              else ''6502 FUNCTIONAL TEST FAILED'' @ CRLF"
  have w: "monitored_ram_write ram out 0x6001 b =
     (ram\<lparr>mon_data := (mon_data ram)(24577 AND (mon_size ram - 1) := b)\<rparr>,
      enqueue_message ?msg out)"
    by (simp add: monitored_ram_write_def MONITORED_ADDR_OUTPUT_CHAR_def
        MONITORED_ADDR_TEST_STATUS_def Let_def)
  have len: "length ?msg = 29" by (simp add: CRLF_def)
  have r: "monitored_ram_read (fst (monitored_ram_write ram out 0x6001 b)) 0x6001 = b"
    by (simp add: w monitored_ram_read_def)
  have c: "queue_contents (snd (monitored_ram_write ram out 0x6001 b))
             = queue_contents out @ map of_char ?msg"
    if "queue_inv out" "q_count out + 29 \<le> QUEUE_SIZE"
    using enqueue_message_contents [of out ?msg] that len unfolding w by simp
  show ?thesis using w r c by (simp add: CRLF_def)
qed

theorem monitored_ram_write_test_status_witness:
  "queue_inv fresh_queue \<and> q_count fresh_queue + 29 \<le> QUEUE_SIZE \<and>
   queue_contents (snd (monitored_ram_write \<lparr>mon_data = (\<lambda>_. 0), mon_size = 0x10000\<rparr>
                          fresh_queue 0x6001 0x00))
     = [0x36, 0x35, 0x30, 0x32, 0x20, 0x46, 0x55, 0x4E, 0x43, 0x54, 0x49, 0x4F, 0x4E, 0x41,
        0x4C, 0x20, 0x54, 0x45, 0x53, 0x54, 0x20, 0x50, 0x41, 0x53, 0x53, 0x45, 0x44, 0x0D, 0x0A]"
proof -
  have inv: "queue_inv fresh_queue" by (simp add: queue_inv_def fresh_queue_def QUEUE_SIZE_def)
  have room: "q_count fresh_queue + 29 \<le> QUEUE_SIZE" by (simp add: fresh_queue_def QUEUE_SIZE_def)
  have empty: "queue_contents fresh_queue = []" by (simp add: queue_contents_def fresh_queue_def)
  have "queue_inv fresh_queue \<and> q_count fresh_queue + 29 \<le> QUEUE_SIZE \<longrightarrow>
      queue_contents (snd (monitored_ram_write \<lparr>mon_data = (\<lambda>_. 0), mon_size = 0x10000\<rparr>
                             fresh_queue 0x6001 0x00))
        = queue_contents fresh_queue @
          map of_char (if (0x00 :: uint8_t) = 0x00 then ''6502 FUNCTIONAL TEST PASSED'' @ CRLF
                       else ''6502 FUNCTIONAL TEST FAILED'' @ CRLF)"
    using monitored_ram_write_test_status [of "\<lparr>mon_data = (\<lambda>_. 0), mon_size = 0x10000\<rparr>"
        fresh_queue "0x00"]
    by (elim conjE) assumption
  with inv room empty show ?thesis by (simp add: CRLF_def)
qed

text \<open>
  The other copy of \<^verbatim>\<open>monitored.c\<close> sends the same words ended by a line feed alone, 28
  bytes; its additional status is at \<open>0x0002\<close>, and a write to \<open>0x6002\<close> enqueues nothing.
\<close>

lemma monitored_ram_write_lf_test_status:
  "snd (monitored_ram_write_lf ram out 0x6001 b) =
     enqueue_message (if b = 0x00 then ''6502 FUNCTIONAL TEST PASSED'' @ LF
                      else ''6502 FUNCTIONAL TEST FAILED'' @ LF) out \<and>
   length (''6502 FUNCTIONAL TEST PASSED'' @ LF) = 28 \<and>
   snd (monitored_ram_write_lf ram out 0x0002 b) =
     enqueue_message (if b = 0x00 then ''ADDITIONAL TEST PASSED'' @ LF
                      else ''ADDITIONAL TEST FAILED: CODE 0x'' @ hex_02X b @ LF) out \<and>
   length (''ADDITIONAL TEST FAILED: CODE 0x'' @ hex_02X b @ LF) = 34 \<and>
   snd (monitored_ram_write_lf ram out 0x6002 b) = out"
  by (simp add: monitored_ram_write_lf_def MONITORED_ADDR_OUTPUT_CHAR_def
      MONITORED_ADDR_TEST_STATUS_def MONITORED_ADDR_ADDITIONAL_STATUS_LF_def Let_def LF_def
      hex_02X_def)

section \<open>PHP and PLP\<close>

lemma php_plp_state:
  assumes "flat_memory cpu"
  shows "instr_plp (instr_php cpu) =
           (instr_php cpu)\<lparr>reg_SP := reg_SP cpu, reg_P := (reg_P cpu OR 0x30) AND 0xEF OR 0x20\<rparr>"
  using assms
  by (simp add: instr_plp_def instr_php_def pull_byte_peek push_byte_flat)

text \<open>
  Claim C8.  On the flat memory map, \<^verbatim>\<open>PHP\<close> followed by \<^verbatim>\<open>PLP\<close> restores \<open>C\<close>, \<open>Z\<close>,
  \<open>V\<close>, \<open>N\<close>, \<open>D\<close> and \<open>I\<close>, leaves \<open>B\<close> clear and \<open>U\<close> set, and returns \<open>SP\<close> to its
  value; in between, \<open>SP\<close> is one lower and the stack holds \<open>P | 0x30\<close>.  The two
  instructions are the table's entries for the opcodes \<open>0x08\<close> and \<open>0x28\<close>.
\<close>

theorem php_plp_round_trip:
  "flat_memory cpu \<Longrightarrow>
   get_flag (instr_plp (instr_php cpu)) FLAG_CARRY = get_flag cpu FLAG_CARRY \<and>
   get_flag (instr_plp (instr_php cpu)) FLAG_ZERO = get_flag cpu FLAG_ZERO \<and>
   get_flag (instr_plp (instr_php cpu)) FLAG_OVERFLOW = get_flag cpu FLAG_OVERFLOW \<and>
   get_flag (instr_plp (instr_php cpu)) FLAG_NEGATIVE = get_flag cpu FLAG_NEGATIVE \<and>
   get_flag (instr_plp (instr_php cpu)) FLAG_DECIMAL = get_flag cpu FLAG_DECIMAL \<and>
   get_flag (instr_plp (instr_php cpu)) FLAG_INTERRUPT = get_flag cpu FLAG_INTERRUPT \<and>
   \<not> get_flag (instr_plp (instr_php cpu)) FLAG_BREAK \<and>
   get_flag (instr_plp (instr_php cpu)) FLAG_UNUSED \<and>
   reg_SP (instr_plp (instr_php cpu)) = reg_SP cpu \<and>
   reg_SP (instr_php cpu) = reg_SP cpu - 1 \<and>
   peek (instr_php cpu) (stack_addr (reg_SP cpu)) = reg_P cpu OR 0x30 \<and>
   reg_P (instr_plp (instr_php cpu)) = (reg_P cpu OR 0x30) AND 0xEF OR 0x20 \<and>
   execute (opcode_table 0x08) = Some instr_php \<and>
   execute (opcode_table 0x28) = Some instr_plp"
proof -
  assume flat: "flat_memory cpu"
  have php: "reg_SP (instr_php cpu) = reg_SP cpu - 1"
    "peek (instr_php cpu) (stack_addr (reg_SP cpu)) = reg_P cpu OR 0x30"
    using flat by (simp_all add: instr_php_def push_byte_flat)
  have p: "reg_P (instr_plp (instr_php cpu)) = (reg_P cpu OR 0x30) AND 0xEF OR 0x20"
    and sp: "reg_SP (instr_plp (instr_php cpu)) = reg_SP cpu"
    by (simp_all add: php_plp_state [OF flat])
  show ?thesis
    using php sp by (simp add: p get_flag_def bit_and_iff bit_or_iff opcode_PHP opcode_PLP)
qed

theorem php_plp_round_trip_witness:
  "flat_memory (setup_test_cpu\<lparr>reg_P := 0xC3\<rparr>) \<and>
   reg_P (instr_plp (instr_php (setup_test_cpu\<lparr>reg_P := 0xC3\<rparr>))) = 0xE3 \<and>
   reg_SP (instr_plp (instr_php (setup_test_cpu\<lparr>reg_P := 0xC3\<rparr>))) = 0xFD \<and>
   peek (instr_php (setup_test_cpu\<lparr>reg_P := 0xC3\<rparr>)) 0x01FD = 0xF3"
proof -
  have f: "flat_memory (setup_test_cpu\<lparr>reg_P := 0xC3\<rparr>)"
    by (simp add: flat_memory_def fixture_defs)
  have sp: "reg_SP (setup_test_cpu\<lparr>reg_P := 0xC3\<rparr>) = 0xFD"
    and p: "reg_P (setup_test_cpu\<lparr>reg_P := 0xC3\<rparr>) = 0xC3"
    by (simp_all add: fixture_defs)
  show ?thesis
    using f php_plp_round_trip [OF f] by (simp add: sp p stack_addr_def)
qed


section \<open>Maskable interrupt\<close>

text \<open>
  While \<open>I\<close> is set the latch is kept: a step of a CPU that is not paused, entered with
  the IRQ latch set and \<open>I\<close> set, returns with the latch still set, whatever instruction
  it executes; unless an NMI is latched too, the interrupt block changes nothing at all.
\<close>

lemma irq_latch_kept_while_masked:
  assumes "IRQ_pending cpu" "get_flag cpu FLAG_INTERRUPT" "\<not> paused cpu"
  shows "cpu_execute_instruction cpu = Some (step_status cpu, after_step cpu)"
    and "IRQ_pending (handle_interrupts cpu)"
    and "IRQ_pending (after_step cpu)"
    and "\<not> NMI_pending cpu \<Longrightarrow> handle_interrupts cpu = cpu"
proof -
  show "cpu_execute_instruction cpu = Some (step_status cpu, after_step cpu)"
    by (simp add: step_unpaused [OF assms(3)])
  show h: "IRQ_pending (handle_interrupts cpu)"
  proof (cases "NMI_pending cpu")
    case True
    then show ?thesis using assms by (simp add: handle_interrupts_nmi interrupt_entry_regs)
  next
    case False
    then show ?thesis using assms by (simp add: handle_interrupts_none)
  qed
  show "IRQ_pending (after_step cpu)"
    using after_step_latches [OF assms(3)] h by (simp add: latches_def)
  show "handle_interrupts cpu = cpu" if "\<not> NMI_pending cpu"
    using that assms by (simp add: handle_interrupts_none)
qed

text \<open>
  A step entered with the IRQ latch set, \<open>I\<close> clear and no NMI latched services the IRQ:
  the latch is cleared, \<open>PC\<close> and \<open>P\<close> are pushed, \<open>I\<close> is set, \<open>PC\<close> is loaded from
  \<open>0xFFFE/0xFFFF\<close> (on the flat memory map) and seven cycles are counted.
\<close>

lemma irq_serviced_alone:
  assumes "IRQ_pending cpu" "\<not> get_flag cpu FLAG_INTERRUPT" "\<not> NMI_pending cpu"
  shows "\<not> IRQ_pending (handle_interrupts cpu)"
    and "get_flag (handle_interrupts cpu) FLAG_INTERRUPT"
    and "reg_SP (handle_interrupts cpu) = reg_SP cpu - 3"
    and "cycle_count (handle_interrupts cpu) = cycle_count cpu + 7"
    and "flat_memory cpu \<Longrightarrow>
           reg_PC (handle_interrupts cpu)
             = ucast (peek cpu 0xFFFE) OR push_bit 8 (ucast (peek cpu 0xFFFF))"
proof -
  have h: "handle_interrupts cpu = interrupt_entry False True (cpu\<lparr>IRQ_pending := False\<rparr>)"
    using assms by (simp add: handle_interrupts_irq)
  show "\<not> IRQ_pending (handle_interrupts cpu)"
    "get_flag (handle_interrupts cpu) FLAG_INTERRUPT"
    "reg_SP (handle_interrupts cpu) = reg_SP cpu - 3"
    "cycle_count (handle_interrupts cpu) = cycle_count cpu + 7"
    by (simp_all add: h interrupt_entry_regs)
  assume "flat_memory cpu"
  then have f: "flat_memory (cpu\<lparr>IRQ_pending := False\<rparr>)" by simp
  show "reg_PC (handle_interrupts cpu)
          = ucast (peek cpu 0xFFFE) OR push_bit 8 (ucast (peek cpu 0xFFFF))"
    by (simp add: h interrupt_entry_memory [OF f])
qed

text \<open>
  A step entered with both latches set and \<open>I\<close> clear: \<^verbatim>\<open>handle_irq\<close> is computed without
  regard to \<^verbatim>\<open>handle_nmi\<close>, so both latches are cleared, while one return frame is pushed
  and the vector is chosen by \<^verbatim>\<open>if (handle_nmi) ... else if (handle_irq)\<close>: the NMI's.
  The IRQ latch is clear when the step ends, and no later step entry finds it.
\<close>

lemma irq_latch_cleared_with_nmi:
  assumes "IRQ_pending cpu" "\<not> get_flag cpu FLAG_INTERRUPT" "NMI_pending cpu" "\<not> paused cpu"
  shows "\<not> IRQ_pending (handle_interrupts cpu)"
    and "\<not> IRQ_pending (after_step cpu)"
    and "reg_SP (handle_interrupts cpu) = reg_SP cpu - 3"
    and "flat_memory cpu \<Longrightarrow>
           reg_PC (handle_interrupts cpu)
             = ucast (peek cpu 0xFFFA) OR push_bit 8 (ucast (peek cpu 0xFFFB))"
proof -
  let ?c = "cpu\<lparr>NMI_pending := False, IRQ_pending := False\<rparr>"
  have h: "handle_interrupts cpu = interrupt_entry True True ?c"
    using assms by (simp add: handle_interrupts_nmi)
  show l: "\<not> IRQ_pending (handle_interrupts cpu)"
    and "reg_SP (handle_interrupts cpu) = reg_SP cpu - 3"
    by (simp_all add: h interrupt_entry_regs)
  show "\<not> IRQ_pending (after_step cpu)"
    using after_step_latches [OF assms(4)] l by (simp add: latches_def)
  assume "flat_memory cpu"
  then have f: "flat_memory ?c" by simp
  show "reg_PC (handle_interrupts cpu)
          = ucast (peek cpu 0xFFFA) OR push_bit 8 (ucast (peek cpu 0xFFFB))"
    by (simp add: h interrupt_entry_memory [OF f])
qed

lemma irq_demo_facts:
  "flat_memory irq_demo" "\<not> paused irq_demo" "\<not> NMI_pending irq_demo"
  "IRQ_pending irq_demo" "reg_PC irq_demo = 0xC000" "reg_SP irq_demo = 0xFD"
  "reg_P irq_demo = 0x34" "cycle_count irq_demo = 0"
  "peek irq_demo 0xC000 = 0x58" "peek irq_demo 0xC001 = 0xEA"
  "peek irq_demo 0x9000 = 0x58" "peek irq_demo 0x9001 = 0xEA"
  "peek irq_demo 0xA000 = 0xEA"
  "peek irq_demo 0xFFFA = 0x00" "peek irq_demo 0xFFFB = 0x90"
  "peek irq_demo 0xFFFE = 0x00" "peek irq_demo 0xFFFF = 0xA0"
  by (simp_all add: irq_demo_def cpu_inject_IRQ_def fixture_defs access_defs flat_memory_def
      peek_def)

text \<open>
  Claim C10 at a failing input.  The test machine runs \<^verbatim>\<open>CLI\<close> at \<open>0xC000\<close> with \<open>I\<close> set
  and an IRQ injected; the NMI vector is \<open>0x9000\<close>, where the handler starts with
  \<^verbatim>\<open>CLI\<close>, and the IRQ vector is \<open>0xA000\<close>.  The first step defers the IRQ, as the claim
  says, and clears \<open>I\<close>.  An NMI is then injected (\<open>irq_demo_nmi\<close>).  The second step is
  entered with \<open>I\<close> clear: it clears both latches, pushes one return frame and loads the
  NMI vector; its instruction clears \<open>I\<close> again (\<open>irq_demo_handler\<close>).  The third step is
  entered with \<open>I\<close> clear and no NMI latched, and services nothing: the IRQ latch is gone,
  the interrupt block leaves the state as it is and the step goes on in the NMI handler
  at \<open>0x9001\<close>.  The IRQ was discarded, where the claim says it is never discarded and is
  serviced at the first step entry at which \<open>I\<close> is clear.
\<close>

theorem irq_lost_when_nmi_latched:
  "IRQ_pending irq_demo \<and> get_flag irq_demo FLAG_INTERRUPT \<and> \<not> paused irq_demo \<and>
   step_status irq_demo = CPU_SUCCESS \<and>
   IRQ_pending (after_step irq_demo) \<and>
   \<not> get_flag (after_step irq_demo) FLAG_INTERRUPT \<and>
   IRQ_pending irq_demo_nmi \<and> NMI_pending irq_demo_nmi \<and>
   \<not> get_flag irq_demo_nmi FLAG_INTERRUPT \<and> \<not> paused irq_demo_nmi \<and>
   reg_PC (handle_interrupts irq_demo_nmi) = 0x9000 \<and>
   reg_SP (handle_interrupts irq_demo_nmi) = 0xFA \<and>
   \<not> IRQ_pending (handle_interrupts irq_demo_nmi) \<and>
   step_status irq_demo_nmi = CPU_SUCCESS \<and>
   reg_PC irq_demo_handler = 0x9001 \<and>
   \<not> IRQ_pending irq_demo_handler \<and> \<not> NMI_pending irq_demo_handler \<and>
   \<not> get_flag irq_demo_handler FLAG_INTERRUPT \<and> \<not> paused irq_demo_handler \<and>
   handle_interrupts irq_demo_handler = irq_demo_handler \<and>
   step_status irq_demo_handler = CPU_SUCCESS \<and>
   reg_PC (after_step irq_demo_handler) = 0x9002 \<and>
   reg_SP (after_step irq_demo_handler) = 0xFA \<and>
   \<not> IRQ_pending (after_step irq_demo_handler)"
proof -
  have i: "get_flag irq_demo FLAG_INTERRUPT" by (simp add: get_flag_def irq_demo_facts)
  let ?s0 = "irq_demo\<lparr>cycle_count := cycle_count irq_demo + 1, reg_PC := reg_PC irq_demo + 1\<rparr>"
  have h0: "handle_interrupts irq_demo = irq_demo"
    by (rule handle_interrupts_none) (simp_all add: irq_demo_facts i)
  have fe0: "fetch_and_execute irq_demo = (CPU_SUCCESS, instr_cli ?s0)"
    by (rule fetch_and_execute_plain) (simp_all add: irq_demo_facts INPUT_ADDR_def opcode_CLI)
  have st0: "step_status irq_demo = CPU_SUCCESS"
    and af0: "after_step irq_demo = set_flag ?s0 FLAG_INTERRUPT False"
    using step_unpaused [of irq_demo] by (simp_all add: irq_demo_facts h0 fe0 instr_cli_def)
  let ?s1 = "irq_demo_nmi"
  have s1: "flat_memory ?s1" "\<not> paused ?s1" "NMI_pending ?s1" "IRQ_pending ?s1"
    "\<not> get_flag ?s1 FLAG_INTERRUPT" "reg_SP ?s1 = 0xFD" "peek ?s1 = peek irq_demo"
    "IRQ_pending (after_step irq_demo)" "\<not> get_flag (after_step irq_demo) FLAG_INTERRUPT"
    by (simp_all add: irq_demo_nmi_def cpu_inject_NMI_def af0 irq_demo_facts get_flag_set_flag)
  let ?c = "?s1\<lparr>NMI_pending := False, IRQ_pending := False\<rparr>"
  let ?h = "handle_interrupts ?s1"
  have h: "?h = interrupt_entry True True ?c"
    using handle_interrupts_nmi [of ?s1] by (simp add: s1)
  have f: "flat_memory ?c" using s1(1) by simp
  have sp: "reg_SP ?c = 0xFD" using s1(6) by simp
  have hp: "reg_PC ?h = 0x9000" "peek ?h 0x9000 = 0x58" "peek ?h 0x9001 = 0xEA"
    by (simp_all add: h interrupt_entry_memory [OF f] s1(7) sp irq_demo_facts stack_addr_def)
  have hr: "reg_SP ?h = 0xFA" "\<not> IRQ_pending ?h" "\<not> NMI_pending ?h" "\<not> paused ?h"
    using s1(2) by (simp_all add: h interrupt_entry_regs sp)
  let ?h1 = "?h\<lparr>cycle_count := cycle_count ?h + 1, reg_PC := reg_PC ?h + 1\<rparr>"
  have fe: "fetch_and_execute ?h = (CPU_SUCCESS, instr_cli ?h1)"
    by (rule fetch_and_execute_plain) (simp_all add: hp INPUT_ADDR_def opcode_CLI)
  have st: "step_status ?s1 = CPU_SUCCESS"
    and af: "irq_demo_handler = set_flag ?h1 FLAG_INTERRUPT False"
    using step_unpaused [of ?s1] by (simp_all add: irq_demo_handler_def s1 fe instr_cli_def)
  let ?s2 = "irq_demo_handler"
  have s2: "\<not> paused ?s2" "\<not> NMI_pending ?s2" "\<not> IRQ_pending ?s2"
    "\<not> get_flag ?s2 FLAG_INTERRUPT" "reg_PC ?s2 = 0x9001" "reg_SP ?s2 = 0xFA"
    "peek ?s2 0x9001 = 0xEA"
    by (simp_all add: af hp hr get_flag_set_flag)
  have h2: "handle_interrupts ?s2 = ?s2"
    by (rule handle_interrupts_none) (simp_all add: s2)
  let ?s3 = "?s2\<lparr>cycle_count := cycle_count ?s2 + 1, reg_PC := reg_PC ?s2 + 1\<rparr>"
  have fe2: "fetch_and_execute ?s2 = (CPU_SUCCESS, instr_nop ?s3)"
    by (rule fetch_and_execute_plain) (simp_all add: s2 INPUT_ADDR_def opcode_NOP)
  have st2: "step_status ?s2 = CPU_SUCCESS" and af2: "after_step ?s2 = ?s3"
    using step_unpaused [of ?s2] by (simp_all add: s2 h2 fe2 instr_nop_def)
  show ?thesis
    by (simp add: i irq_demo_facts st0 s1 hp hr st s2 h2 st2 af2)
qed

end
